theory Spec2Isabelle
  imports Complex_Main
begin

section \<open>Boone's method for the preconsolidation pressure (pysimgap, boone.py)\<close>

text \<open>
  The development embeds \<^verbatim>\<open>Boone.getSigmaP\<close> of \<^verbatim>\<open>src/pysimgap/boone.py\<close>.
  The method reads a data object, calls \<^verbatim>\<open>numpy\<close>'s \<^verbatim>\<open>polyfit\<close> and
  \<^verbatim>\<open>sklearn\<close>'s \<^verbatim>\<open>r2_score\<close>, stores the pressure in \<^verbatim>\<open>self.sigmaP\<close> and
  draws a figure from its local variables.
\<close>

subsection \<open>Numbers\<close>

text \<open>
  A \<^verbatim>\<open>numpy.float64\<close> is a finite number or one of \<^verbatim>\<open>inf\<close>, \<^verbatim>\<open>-inf\<close>,
  \<^verbatim>\<open>nan\<close>. numpy's arithmetic raises nothing: a division by zero or the
  logarithm of a non-positive number gives one of the three special values (and a
  warning). Finite values are taken as exact reals: rounding, overflow and the sign
  of zero (a zero divisor counts as \<^verbatim>\<open>+0.0\<close>) are not modelled.
\<close>

datatype npfloat = Fin real | PInf | NInf | NaN

fun fneg :: "npfloat \<Rightarrow> npfloat" where
  "fneg (Fin x) = Fin (- x)"
| "fneg PInf = NInf"
| "fneg NInf = PInf"
| "fneg NaN = NaN"

fun fadd :: "npfloat \<Rightarrow> npfloat \<Rightarrow> npfloat" where
  "fadd (Fin x) (Fin y) = Fin (x + y)"
| "fadd NaN b = NaN"
| "fadd a NaN = NaN"
| "fadd PInf NInf = NaN"
| "fadd NInf PInf = NaN"
| "fadd PInf b = PInf"
| "fadd a PInf = PInf"
| "fadd NInf b = NInf"
| "fadd a NInf = NInf"

definition fsub :: "npfloat \<Rightarrow> npfloat \<Rightarrow> npfloat" where
  "fsub a b = fadd a (fneg b)"

text \<open>An infinity times a finite factor: the factor's sign decides, and zero gives nan.\<close>

definition inf_times :: "npfloat \<Rightarrow> real \<Rightarrow> npfloat" where
  "inf_times i x = (if 0 < x then i else if x < 0 then fneg i else NaN)"

fun fmul :: "npfloat \<Rightarrow> npfloat \<Rightarrow> npfloat" where
  "fmul (Fin x) (Fin y) = Fin (x * y)"
| "fmul NaN b = NaN"
| "fmul a NaN = NaN"
| "fmul (Fin x) i = inf_times i x"
| "fmul i (Fin y) = inf_times i y"
| "fmul PInf PInf = PInf"
| "fmul PInf NInf = NInf"
| "fmul NInf PInf = NInf"
| "fmul NInf NInf = PInf"

fun fdiv :: "npfloat \<Rightarrow> npfloat \<Rightarrow> npfloat" where
  "fdiv (Fin x) (Fin y) =
     (if y \<noteq> 0 then Fin (x / y)
      else if 0 < x then PInf else if x < 0 then NInf else NaN)"
| "fdiv NaN b = NaN"
| "fdiv a NaN = NaN"
| "fdiv (Fin x) i = Fin 0"
| "fdiv i (Fin y) = (if y < 0 then fneg i else i)"
| "fdiv i j = NaN"

text \<open>\<^verbatim>\<open>np.log10\<close>: \<^verbatim>\<open>-inf\<close> at zero and \<^verbatim>\<open>nan\<close> below it.\<close>

fun flog10 :: "npfloat \<Rightarrow> npfloat" where
  "flog10 (Fin x) = (if 0 < x then Fin (log 10 x) else if x = 0 then NInf else NaN)"
| "flog10 PInf = PInf"
| "flog10 NInf = NaN"
| "flog10 NaN = NaN"

text \<open>\<^verbatim>\<open>10 ** q\<close> for a float64 \<^verbatim>\<open>q\<close>.\<close>

fun fpow10 :: "npfloat \<Rightarrow> npfloat" where
  "fpow10 (Fin x) = Fin (10 powr x)"
| "fpow10 PInf = PInf"
| "fpow10 NInf = Fin 0"
| "fpow10 NaN = NaN"

text \<open>The comparison \<^verbatim>\<open><\<close>: false whenever an operand is nan.\<close>

fun flt :: "npfloat \<Rightarrow> npfloat \<Rightarrow> bool" where
  "flt (Fin x) (Fin y) = (x < y)"
| "flt NaN b = False"
| "flt a NaN = False"
| "flt a NInf = False"
| "flt PInf b = False"
| "flt a b = True"

text \<open>
  \<^verbatim>\<open>numpy.polynomial.polynomial.polyval(x, c)\<close> at a scalar \<^verbatim>\<open>x\<close>, by Horner's
  scheme as numpy runs it: \<^verbatim>\<open>c0 = c[-1] + x*0\<close>, then \<^verbatim>\<open>c0 = c[-i] + c0*x\<close> for
  \<^verbatim>\<open>i = 2, ..., len(c)\<close>. The method calls it with lists of two and four
  coefficients only; the empty list (an IndexError in numpy) does not occur.
\<close>

fun horner :: "npfloat \<Rightarrow> npfloat \<Rightarrow> npfloat list \<Rightarrow> npfloat" where
  "horner x c0 [] = c0"
| "horner x c0 (ci # cs) = horner x (fadd ci (fmul c0 x)) cs"

definition polyval :: "npfloat \<Rightarrow> npfloat list \<Rightarrow> npfloat" where
  "polyval x c =
     (case rev c of
        [] \<Rightarrow> NaN
      | cn # cs \<Rightarrow> horner x (fadd cn (fmul x (Fin 0))) cs)"

text \<open>\<^verbatim>\<open>np.linspace(start, stop, num)\<close> with the end point included.\<close>

definition linspace :: "real \<Rightarrow> real \<Rightarrow> nat \<Rightarrow> real list" where
  "linspace start stop num =
     (if num = 1 then [start]
      else map (\<lambda>i. if i = num - 1 then stop
                     else start + real i * ((stop - start) / real (num - 1)))
             [0..<num])"

subsection \<open>Series, slices and exceptions\<close>

text \<open>
  The exceptions: those numpy, scikit-learn and pandas raise, the three of the
  specification's taxonomy (\<^verbatim>\<open>DomainError\<close>, \<^verbatim>\<open>InvalidRangeError\<close>,
  \<^verbatim>\<open>NoIntersectionError\<close>), which no statement of \<^verbatim>\<open>boone.py\<close> raises, and
  Python's \<^verbatim>\<open>NotImplementedError\<close>, with which a stand-in for a collaborator
  answers a call it does not cover.
\<close>

datatype exn =
    TypeError | ValueError | IndexError | LinAlgError | NotImplementedError
  | DomainError | InvalidRangeError | NoIntersectionError

definition bnd :: "exn + 'a \<Rightarrow> ('a \<Rightarrow> exn + 'b) \<Rightarrow> exn + 'b" where
  "bnd m f = (case m of Inl e \<Rightarrow> Inl e | Inr v \<Rightarrow> f v)"

text \<open>
  A slice \<^verbatim>\<open>s[a:b]\<close> of a pandas Series with integer bounds is positional, as a
  Python list's: a negative bound counts from the end, \<^verbatim>\<open>None\<close> is the open end,
  and bounds out of range are clipped.
\<close>

definition py_bound :: "nat \<Rightarrow> int \<Rightarrow> nat" where
  "py_bound n i = (if i < 0 then nat (int n + i) else min (nat i) n)"

definition py_slice :: "int option \<Rightarrow> int option \<Rightarrow> 'a list \<Rightarrow> 'a list" where
  "py_slice a b xs =
     (let lo = (case a of None \<Rightarrow> 0 | Some i \<Rightarrow> py_bound (length xs) i);
          hi = (case b of None \<Rightarrow> length xs | Some j \<Rightarrow> py_bound (length xs) j)
      in take (hi - lo) (drop lo xs))"

text \<open>\<^verbatim>\<open>s.iloc[i]\<close>: IndexError out of range.\<close>

definition iloc :: "'a list \<Rightarrow> int \<Rightarrow> exn + 'a" where
  "iloc xs i =
     (let j = (if i < 0 then int (length xs) + i else i)
      in if 0 \<le> j \<and> j < int (length xs) then Inr (xs ! nat j) else Inl IndexError)"

text \<open>\<^verbatim>\<open>s.max()\<close> of a pandas Series: nan when the series is empty.\<close>

definition series_max :: "real list \<Rightarrow> npfloat" where
  "series_max xs = (if xs = [] then NaN else Fin (Max (set xs)))"

text \<open>
  Unpacking \<^verbatim>\<open>p1_0, p1_1, p1_2, p1_3 = ...\<close> (or \<^verbatim>\<open>p2_0, p2_1 = ...\<close>):
  ValueError unless the right-hand side has that many items.
\<close>

definition unpack :: "nat \<Rightarrow> 'a list \<Rightarrow> exn + 'a list" where
  "unpack n xs = (if length xs = n then Inr xs else Inl ValueError)"

subsection \<open>The data object, the collaborators and the object\<close>

text \<open>
  \<^verbatim>\<open>self.data\<close>: the frames \<^verbatim>\<open>raw\<close> and \<^verbatim>\<open>cleaned\<close> with their columns
  \<^verbatim>\<open>stress\<close> and \<^verbatim>\<open>e\<close> (a row is a pair), and the scalars \<^verbatim>\<open>sigmaV\<close> and
  \<^verbatim>\<open>idxCr\<close>. The entries are finite numbers.
\<close>

record Data =
  raw :: "(real \<times> real) list"
  cleaned :: "(real \<times> real) list"
  sigmaV :: real
  idxCr :: real

text \<open>
  What \<^verbatim>\<open>getSigmaP\<close> calls and \<^verbatim>\<open>boone.py\<close> does not define: numpy's
  \<^verbatim>\<open>polyfit(x, y, deg)\<close>, scikit-learn's \<^verbatim>\<open>r2_score(y_true, y_pred)\<close> and the
  data object's method \<^verbatim>\<open>findStressIdx(stress2find, cleanedData)\<close>, whose result
  is used as a slice bound (an integer or \<^verbatim>\<open>None\<close>). They are parameters of the
  model; each returns a value or raises.
\<close>

record libs =
  polyfit :: "npfloat list \<Rightarrow> npfloat list \<Rightarrow> nat \<Rightarrow> exn + npfloat list"
  r2_score :: "npfloat list \<Rightarrow> npfloat list \<Rightarrow> exn + npfloat"
  findStressIdx :: "Data \<Rightarrow> real \<Rightarrow> bool \<Rightarrow> exn + int option"

text \<open>The object: its attribute \<^verbatim>\<open>data\<close>, and \<^verbatim>\<open>sigmaP\<close> once it has been set.\<close>

record Boone =
  data :: Data
  self_sigmaP :: "npfloat option"

text \<open>
  The local variables the figure is drawn from (lines 121 to 149 only render them):
  the two windows, the two fits with their \<^verbatim>\<open>R\<^sup>2\<close> and sampled curves, the line
  parallel to the recompression line, and the intersection.
\<close>

record fig =
  rawSigma :: "real list"
  rawE :: "real list"
  sigmaTOP :: "real list"
  eTOP :: "real list"
  p1 :: "npfloat list"
  r2TOP :: npfloat
  xFitTOP :: "real list"
  yFitTOP :: "npfloat list"
  eSigmaV :: npfloat
  sigmaNCL :: "real list"
  eNCL :: "real list"
  p2 :: "npfloat list"
  r2NCL :: npfloat
  xFitNCL :: "real list"
  yFitNCL :: "npfloat list"
  eCr :: npfloat
  xCrParallel :: "real list"
  yCrParallel :: "npfloat list"
  sigmaP :: npfloat
  eSigmaP :: npfloat

subsection \<open>getSigmaP\<close>

text \<open>Lines 71 to 78: the bounds of the window of the third-order polynomial.\<close>

definition idxTOP :: "libs \<Rightarrow> Data \<Rightarrow> (real \<times> real) option \<Rightarrow> exn + (int option \<times> int option)" where
  "idxTOP L d range2fitTOP =
     (case range2fitTOP of
        None \<Rightarrow>
          Inr (Some \<lfloor>real (length (cleaned d)) / 3\<rfloor>,
               Some \<lceil>2 * real (length (cleaned d)) / 3\<rceil>)
      | Some (lo, hi) \<Rightarrow>
          bnd (findStressIdx L d lo True) (\<lambda>idxInitTOP.
          bnd (findStressIdx L d hi True) (\<lambda>idxEndTOP.
          Inr (idxInitTOP, idxEndTOP))))"

text \<open>Lines 80 to 87: the bounds of the window of the normally consolidated line.\<close>

definition idxNCL :: "libs \<Rightarrow> Data \<Rightarrow> (real \<times> real) option \<Rightarrow> exn + (int option \<times> int option)" where
  "idxNCL L d range2fitNCL =
     (case range2fitNCL of
        None \<Rightarrow> Inr (Some (- 3), None)
      | Some (lo, hi) \<Rightarrow>
          bnd (findStressIdx L d lo True) (\<lambda>idxInitNCL.
          if flt (Fin hi) (series_max (map fst (cleaned d)))
          then bnd (findStressIdx L d hi True) (\<lambda>idxEndNCL. Inr (idxInitNCL, idxEndNCL))
          else Inr (idxInitNCL, None)))"

text \<open>
  Lines 89 to 118 and the series of the figure. Every statement that can raise comes
  before the assignment to \<^verbatim>\<open>self.sigmaP\<close> in line 117.
\<close>

definition getSigmaP_locals ::
  "libs \<Rightarrow> Data \<Rightarrow> (real \<times> real) option \<Rightarrow> (real \<times> real) option \<Rightarrow> exn + fig" where
  "getSigmaP_locals L d range2fitTOP range2fitNCL =
     bnd (idxTOP L d range2fitTOP) (\<lambda>(idxInitTOP, idxEndTOP).
     bnd (idxNCL L d range2fitNCL) (\<lambda>(idxInitNCL, idxEndNCL).
     let sigmaTOP_v = py_slice idxInitTOP idxEndTOP (map fst (cleaned d));
         sigmaTOPlog = map (\<lambda>s. flog10 (Fin s)) sigmaTOP_v;
         eTOP_v = py_slice idxInitTOP idxEndTOP (map snd (cleaned d))
     in
     bnd (polyfit L sigmaTOPlog (map Fin eTOP_v) 3) (\<lambda>fitTOP.
     bnd (unpack 4 fitTOP) (\<lambda>p1_v.
     bnd (r2_score L (map Fin eTOP_v) (map (\<lambda>x. polyval x p1_v) sigmaTOPlog)) (\<lambda>r2TOP_v.
     bnd (iloc sigmaTOP_v 0) (\<lambda>top0.
     bnd (iloc sigmaTOP_v (- 1)) (\<lambda>top1.
     let xFitTOP_v = linspace top0 top1 500;
         yFitTOP_v = map (\<lambda>x. polyval (flog10 (Fin x)) p1_v) xFitTOP_v;
         eSigmaV_v = polyval (flog10 (Fin (sigmaV d))) p1_v;
         sigmaNCL_v = py_slice idxInitNCL idxEndNCL (map fst (cleaned d));
         sigmaNCLlog = map (\<lambda>s. flog10 (Fin s)) sigmaNCL_v;
         eNCL_v = py_slice idxInitNCL idxEndNCL (map snd (cleaned d))
     in
     bnd (polyfit L sigmaNCLlog (map Fin eNCL_v) 1) (\<lambda>fitNCL.
     bnd (unpack 2 fitNCL) (\<lambda>p2_v.
     bnd (r2_score L (map Fin eNCL_v) (map (\<lambda>x. polyval x p2_v) sigmaNCLlog)) (\<lambda>r2NCL_v.
     bnd (iloc sigmaNCL_v (- 1)) (\<lambda>ncl1.
     let xFitNCL_v = linspace (sigmaV d) ncl1 500;
         yFitNCL_v = map (\<lambda>x. polyval (flog10 (Fin x)) p2_v) xFitNCL_v;
         eCr_v = fsub eSigmaV_v (fmul (fneg (Fin (idxCr d))) (flog10 (Fin (sigmaV d))))
     in
     bnd (iloc (map fst (cleaned d)) 1) (\<lambda>cr0.
     bnd (iloc (map fst (cleaned d)) (- 1)) (\<lambda>cr1.
     let xCrParallel_v = linspace cr0 cr1 50;
         yCrParallel_v =
           map (\<lambda>x. polyval (flog10 (Fin x)) [eCr_v, fneg (Fin (idxCr d))]) xCrParallel_v;
         sigmaP_v =
           fpow10 (fdiv (fsub (p2_v ! 0) eCr_v) (fsub (fneg (Fin (idxCr d))) (p2_v ! 1)));
         eSigmaP_v = polyval (flog10 sigmaP_v) p2_v
     in
     Inr \<lparr> rawSigma = py_slice (Some 1) None (map fst (raw d)),
           rawE = py_slice (Some 1) None (map snd (raw d)),
           sigmaTOP = sigmaTOP_v, eTOP = eTOP_v, p1 = p1_v, r2TOP = r2TOP_v,
           xFitTOP = xFitTOP_v, yFitTOP = yFitTOP_v, eSigmaV = eSigmaV_v,
           sigmaNCL = sigmaNCL_v, eNCL = eNCL_v, p2 = p2_v, r2NCL = r2NCL_v,
           xFitNCL = xFitNCL_v, yFitNCL = yFitNCL_v, eCr = eCr_v,
           xCrParallel = xCrParallel_v, yCrParallel = yCrParallel_v,
           sigmaP = sigmaP_v, eSigmaP = eSigmaP_v \<rparr>)))))))))))))"

text \<open>
  The method: the figure is returned and the pressure is stored in the object; an
  exception leaves the object as it was.
\<close>

definition getSigmaP ::
  "libs \<Rightarrow> Boone \<Rightarrow> (real \<times> real) option \<Rightarrow> (real \<times> real) option \<Rightarrow> (exn + fig) \<times> Boone" where
  "getSigmaP L self range2fitTOP range2fitNCL =
     (case getSigmaP_locals L (data self) range2fitTOP range2fitNCL of
        Inl e \<Rightarrow> (Inl e, self)
      | Inr f \<Rightarrow> (Inr f, self\<lparr>self_sigmaP := Some (sigmaP f)\<rparr>))"

text \<open>An exception that one of the collaborators raises on some call.\<close>

definition raises :: "libs \<Rightarrow> exn \<Rightarrow> bool" where
  "raises L e \<longleftrightarrow>
     (\<exists>d s c. findStressIdx L d s c = Inl e) \<or>
     (\<exists>xs ys deg. polyfit L xs ys deg = Inl e) \<or>
     (\<exists>ys ps. r2_score L ys ps = Inl e)"

subsection \<open>Collaborators and data of the examples\<close>

text \<open>
  Modelled from the spec: \<^verbatim>\<open>Data.findStressIdx\<close>, the method of pysimgap's data
  class, which is not among the sources. The specification describes it as the
  "lookup of the dataset index nearest a given stress value within either the raw or
  cleaned series" and leaves the tie-break open: here the earlier index wins. An empty
  series has no matching index, which the specification's taxonomy calls
  \<^verbatim>\<open>InvalidRangeError\<close>.
\<close>

fun nearest :: "real \<Rightarrow> real list \<Rightarrow> nat" where
  "nearest s [] = 0"
| "nearest s [x] = 0"
| "nearest s (x # y # ys) =
     (let k = nearest s (y # ys)
      in if \<bar>x - s\<bar> \<le> \<bar>(y # ys) ! k - s\<bar> then 0 else Suc k)"

definition findStressIdx_nearest :: "Data \<Rightarrow> real \<Rightarrow> bool \<Rightarrow> exn + int option" where
  "findStressIdx_nearest d stress2find cleanedData =
     (let xs = map fst (if cleanedData then cleaned d else raw d)
      in if xs = [] then Inl InvalidRangeError
         else Inr (Some (int (nearest stress2find xs))))"

text \<open>
  A stand-in for numpy's \<^verbatim>\<open>polyfit\<close>, in exact arithmetic, on the calls where the
  least-squares polynomial has a closed form. The line of least squares through points
  with at least two distinct abscissae has the slope
  \<^verbatim>\<open>(n Sxy - Sx Sy) / (n Sxx - Sx\<^sup>2)\<close> and the intercept \<^verbatim>\<open>(Sy - slope Sx) / n\<close>.
  It is the answer for degree 1, and for a higher degree \<^verbatim>\<open>deg\<close> when the points
  lie on it and have more than \<^verbatim>\<open>deg\<close> distinct abscissae (the polynomial of least
  squares is then unique, and it is the line). A straight line through a single point
  is under-determined: \<^verbatim>\<open>lstsq\<close> returns the solution of least norm of the
  column-scaled system, with a RankWarning and no exception. An empty or ill-matched
  input is a TypeError and a non-finite entry the LinAlgError of \<^verbatim>\<open>lstsq\<close>. Every
  other call (a higher degree on points off a line or with too few distinct abscissae,
  several points on one abscissa) is outside the stand-in, which says so with
  \<^verbatim>\<open>NotImplementedError\<close>; numpy returns a fit there.
\<close>

definition is_fin :: "npfloat \<Rightarrow> bool" where
  "is_fin a = (case a of Fin x \<Rightarrow> True | PInf \<Rightarrow> False | NInf \<Rightarrow> False | NaN \<Rightarrow> False)"

definition the_fin :: "npfloat \<Rightarrow> real" where
  "the_fin a = (case a of Fin x \<Rightarrow> x | PInf \<Rightarrow> 0 | NInf \<Rightarrow> 0 | NaN \<Rightarrow> 0)"

definition lsq_line :: "real list \<Rightarrow> real list \<Rightarrow> real \<times> real" where
  "lsq_line xs ys =
     (let n = real (length xs); sx = sum_list xs; sy = sum_list ys;
          sxx = sum_list (map (\<lambda>x. x\<^sup>2) xs);
          sxy = sum_list (map (\<lambda>(x, y). x * y) (zip xs ys));
          slope = (n * sxy - sx * sy) / (n * sxx - sx\<^sup>2)
      in ((sy - slope * sx) / n, slope))"

definition on_line :: "real \<times> real \<Rightarrow> real list \<Rightarrow> real list \<Rightarrow> bool" where
  "on_line l xs ys = list_all2 (\<lambda>x y. y = fst l + snd l * x) xs ys"

definition polyfit_ex :: "npfloat list \<Rightarrow> npfloat list \<Rightarrow> nat \<Rightarrow> exn + npfloat list" where
  "polyfit_ex xs ys deg =
     (if xs = [] \<or> length xs \<noteq> length ys then Inl TypeError
      else if \<not> (list_all is_fin xs \<and> list_all is_fin ys) then Inl LinAlgError
      else
        (let x = map the_fin xs; y = map the_fin ys; l = lsq_line x y
         in if 1 \<le> deg \<and> deg < length (remdups x) \<and> (deg = 1 \<or> on_line l x y)
              then Inr (Fin (fst l) # Fin (snd l) # replicate (deg - 1) (Fin 0))
            else if deg = 1 \<and> length x = 1
              then (if hd x = 0 then Inr [Fin (hd y), Fin 0]
                    else Inr [Fin (hd y / 2), Fin (hd y / (2 * hd x))])
            else Inl NotImplementedError))"

text \<open>
  scikit-learn's \<^verbatim>\<open>r2_score\<close> (one output, no weights): ValueError on empty,
  ill-matched or non-finite input; nan (and a warning) for fewer than two samples;
  otherwise \<^verbatim>\<open>1 - SS_res / SS_tot\<close>, and for a constant \<^verbatim>\<open>y_true\<close> the score
  1 of a perfect prediction and 0 of any other.
\<close>

definition r2_score_ex :: "npfloat list \<Rightarrow> npfloat list \<Rightarrow> exn + npfloat" where
  "r2_score_ex y_true y_pred =
     (if y_true = [] \<or> length y_true \<noteq> length y_pred then Inl ValueError
      else if \<not> (list_all is_fin y_true \<and> list_all is_fin y_pred) then Inl ValueError
      else if length y_true < 2 then Inr NaN
      else
        (let ys = map the_fin y_true; ps = map the_fin y_pred;
             m = sum_list ys / real (length ys);
             ss_res = sum_list (map (\<lambda>(y, p). (y - p)\<^sup>2) (zip ys ps));
             ss_tot = sum_list (map (\<lambda>y. (y - m)\<^sup>2) ys)
         in if ss_tot \<noteq> 0 then Inr (Fin (1 - ss_res / ss_tot))
            else if ss_res \<noteq> 0 then Inr (Fin 0) else Inr (Fin 1)))"

definition np_ex :: libs where
  "np_ex = \<lparr> polyfit = polyfit_ex, r2_score = r2_score_ex,
             findStressIdx = findStressIdx_nearest \<rparr>"

text \<open>
  Thirteen load stages, one per decade of stress, on the line
  \<^verbatim>\<open>e = 1 - log10(stress) / 10\<close>; in-situ stress 10 and recompression index 1/20.
\<close>

definition rows13 :: "(real \<times> real) list" where
  "rows13 =
     [(1, 1), (10, 9 / 10), (100, 8 / 10), (1000, 7 / 10), (10000, 6 / 10),
      (100000, 5 / 10), (1000000, 4 / 10), (10000000, 3 / 10), (100000000, 2 / 10),
      (1000000000, 1 / 10), (10000000000, 0), (100000000000, - 1 / 10),
      (1000000000000, - 2 / 10)]"

definition d13 :: Data where
  "d13 = \<lparr> raw = rows13, cleaned = rows13, sigmaV = 10, idxCr = 1 / 20 \<rparr>"

text \<open>
  Thirteen load stages at the same stresses with a void ratio of 0 throughout and a
  recompression index of 0. Every least-squares fit of these void ratios is the zero
  polynomial, in float64 as in exact arithmetic (the solution of a least-squares
  problem with a zero right-hand side is zero), so that the fitted slope is equal to
  \<^verbatim>\<open>-idxCr\<close>.
\<close>

definition rows13_flat :: "(real \<times> real) list" where
  "rows13_flat = map (\<lambda>(s, e). (s, 0)) rows13"

definition d13_flat :: Data where
  "d13_flat = \<lparr> raw = rows13_flat, cleaned = rows13_flat, sigmaV = 10, idxCr = 0 \<rparr>"

text \<open>
  The thirteen-stage test on the line, with the unloaded first row (stress 0) kept in
  both frames.
\<close>

definition d14_zero :: Data where
  "d14_zero = d13\<lparr>raw := (0, 11 / 10) # rows13, cleaned := (0, 11 / 10) # rows13\<rparr>"


section \<open>Properties\<close>

subsection \<open>How a call ends\<close>

lemma bnd_Inr_iff: "bnd m f = Inr y \<longleftrightarrow> (\<exists>v. m = Inr v \<and> f v = Inr y)"
  by (cases m) (simp_all add: bnd_def)

lemma bnd_InlE:
  assumes "bnd m f = Inl e"
  obtains "m = Inl e" | v where "m = Inr v" and "f v = Inl e"
  using assms by (cases m) (simp_all add: bnd_def)

lemma unpack_Inl: "unpack n xs = Inl e \<Longrightarrow> e = ValueError"
  by (simp add: unpack_def split: if_splits)

lemma iloc_Inl: "iloc xs i = Inl e \<Longrightarrow> e = IndexError"
  by (simp add: iloc_def Let_def split: if_splits)

lemma polyfit_Inl: "polyfit L xs ys deg = Inl e \<Longrightarrow> raises L e"
  by (auto simp: raises_def)

lemma r2_score_Inl: "r2_score L ys ps = Inl e \<Longrightarrow> raises L e"
  by (auto simp: raises_def)

lemma findStressIdx_Inl: "findStressIdx L d s c = Inl e \<Longrightarrow> raises L e"
  by (auto simp: raises_def)

lemma idxTOP_Inl: "idxTOP L d rT = Inl e \<Longrightarrow> raises L e"
  by (auto simp: idxTOP_def split: option.splits prod.splits
      elim!: bnd_InlE dest: findStressIdx_Inl)

lemma idxNCL_Inl: "idxNCL L d rN = Inl e \<Longrightarrow> raises L e"
  by (auto simp: idxNCL_def split: option.splits prod.splits if_splits
      elim!: bnd_InlE dest: findStressIdx_Inl)

text \<open>
  An exception of the method is one of a collaborator, the ValueError of an unpacking
  or the IndexError of an \<^verbatim>\<open>iloc\<close>.
\<close>

lemma locals_Inl:
  assumes "getSigmaP_locals L d rT rN = Inl e"
  shows "e = ValueError \<or> e = IndexError \<or> raises L e"
  using assms
  by (auto simp: getSigmaP_locals_def Let_def split: prod.splits
      elim!: bnd_InlE
      dest: idxTOP_Inl idxNCL_Inl unpack_Inl iloc_Inl polyfit_Inl r2_score_Inl)

lemma nat_int_pred: "nat (int n - 1) = n - 1"
  by (cases n) simp_all

text \<open>What the local variables hold when the method returns.\<close>

lemma locals_InrD:
  assumes "getSigmaP_locals L d rT rN = Inr r"
  shows "\<exists>iT jT iN jN.
    idxTOP L d rT = Inr (iT, jT) \<and> idxNCL L d rN = Inr (iN, jN) \<and>
    sigmaTOP r = py_slice iT jT (map fst (cleaned d)) \<and>
    eTOP r = py_slice iT jT (map snd (cleaned d)) \<and>
    polyfit L (map (\<lambda>s. flog10 (Fin s)) (sigmaTOP r)) (map Fin (eTOP r)) 3 = Inr (p1 r) \<and>
    length (p1 r) = 4 \<and>
    sigmaNCL r = py_slice iN jN (map fst (cleaned d)) \<and>
    eNCL r = py_slice iN jN (map snd (cleaned d)) \<and>
    polyfit L (map (\<lambda>s. flog10 (Fin s)) (sigmaNCL r)) (map Fin (eNCL r)) 1 = Inr (p2 r) \<and>
    length (p2 r) = 2 \<and>
    sigmaTOP r \<noteq> [] \<and> sigmaNCL r \<noteq> [] \<and> 2 \<le> length (cleaned d) \<and>
    eSigmaV r = polyval (flog10 (Fin (sigmaV d))) (p1 r) \<and>
    eCr r = fsub (eSigmaV r) (fmul (fneg (Fin (idxCr d))) (flog10 (Fin (sigmaV d)))) \<and>
    sigmaP r =
      fpow10 (fdiv (fsub (p2 r ! 0) (eCr r)) (fsub (fneg (Fin (idxCr d))) (p2 r ! 1))) \<and>
    eSigmaP r = polyval (flog10 (sigmaP r)) (p2 r) \<and>
    r2_score L (map Fin (eTOP r))
      (map (\<lambda>x. polyval x (p1 r)) (map (\<lambda>s. flog10 (Fin s)) (sigmaTOP r))) =
      Inr (r2TOP r) \<and>
    r2_score L (map Fin (eNCL r))
      (map (\<lambda>x. polyval x (p2 r)) (map (\<lambda>s. flog10 (Fin s)) (sigmaNCL r))) =
      Inr (r2NCL r) \<and>
    xFitTOP r = linspace (sigmaTOP r ! 0) (sigmaTOP r ! (length (sigmaTOP r) - 1)) 500"
  using assms
  apply (simp add: getSigmaP_locals_def bnd_Inr_iff Let_def unpack_def iloc_def
      split: prod.splits if_splits)
  apply (elim exE conjE)
  apply (auto simp: nat_int_pred)
  done

text \<open>When the method returns: the collaborators return and the reads are in range.\<close>

lemma locals_returns:
  assumes "idxTOP L d rT = Inr (iT, jT)" and "idxNCL L d rN = Inr (iN, jN)"
    and "polyfit L (map (\<lambda>s. flog10 (Fin s)) (py_slice iT jT (map fst (cleaned d))))
           (map Fin (py_slice iT jT (map snd (cleaned d)))) 3 = Inr c1"
    and "length c1 = 4"
    and "r2_score L (map Fin (py_slice iT jT (map snd (cleaned d))))
           (map (\<lambda>x. polyval x c1)
              (map (\<lambda>s. flog10 (Fin s)) (py_slice iT jT (map fst (cleaned d))))) = Inr q1"
    and "py_slice iT jT (map fst (cleaned d)) \<noteq> []"
    and "polyfit L (map (\<lambda>s. flog10 (Fin s)) (py_slice iN jN (map fst (cleaned d))))
           (map Fin (py_slice iN jN (map snd (cleaned d)))) 1 = Inr c2"
    and "length c2 = 2"
    and "r2_score L (map Fin (py_slice iN jN (map snd (cleaned d))))
           (map (\<lambda>x. polyval x c2)
              (map (\<lambda>s. flog10 (Fin s)) (py_slice iN jN (map fst (cleaned d))))) = Inr q2"
    and "py_slice iN jN (map fst (cleaned d)) \<noteq> []"
    and "2 \<le> length (cleaned d)"
  shows "\<exists>r. getSigmaP_locals L d rT rN = Inr r \<and> p1 r = c1 \<and> p2 r = c2 \<and>
           r2TOP r = q1 \<and> r2NCL r = q2"
  using assms
  by (auto simp add: getSigmaP_locals_def bnd_def Let_def unpack_def iloc_def)

lemma getSigmaP_Inr:
  "getSigmaP L self rT rN = (Inr r, self') \<longleftrightarrow>
     getSigmaP_locals L (data self) rT rN = Inr r \<and>
     self' = self\<lparr>self_sigmaP := Some (sigmaP r)\<rparr>"
  by (auto simp: getSigmaP_def split: sum.splits)

lemma getSigmaP_Inl:
  "getSigmaP L self rT rN = (Inl e, self') \<longleftrightarrow>
     getSigmaP_locals L (data self) rT rN = Inl e \<and> self' = self"
  by (auto simp: getSigmaP_def split: sum.splits)

subsection \<open>The examples\<close>

lemma log10_pows:
  "log 10 10 = 1" "log 10 100 = 2" "log 10 1000 = 3" "log 10 10000 = 4"
  "log 10 100000 = 5" "log 10 1000000 = 6" "log 10 10000000 = 7" "log 10 100000000 = 8"
  "log 10 1000000000 = 9" "log 10 10000000000 = 10" "log 10 100000000000 = 11"
  "log 10 1000000000000 = 12"
  using log_pow_cancel[of 10 1] log_pow_cancel[of 10 2] log_pow_cancel[of 10 3]
    log_pow_cancel[of 10 4] log_pow_cancel[of 10 5] log_pow_cancel[of 10 6]
    log_pow_cancel[of 10 7] log_pow_cancel[of 10 8] log_pow_cancel[of 10 9]
    log_pow_cancel[of 10 10] log_pow_cancel[of 10 11] log_pow_cancel[of 10 12]
  by simp_all

lemma polyval2: "polyval (Fin x) [Fin a, Fin b] = Fin (a + b * x)"
  by (simp add: polyval_def)

lemma polyval4:
  "polyval (Fin x) [Fin a, Fin b, Fin c, Fin e] = Fin (a + b * x + c * x\<^sup>2 + e * x ^ 3)"
  by (simp add: polyval_def power2_eq_square power3_eq_cube algebra_simps)

subsection \<open>Windows\<close>

lemma py_slice_map: "py_slice a b (map f xs) = map f (py_slice a b xs)"
  by (cases a; cases b) (simp_all add: py_slice_def Let_def take_map drop_map)

lemma set_py_slice: "set (py_slice a b xs) \<subseteq> set xs"
  unfolding py_slice_def Let_def
  by (meson set_take_subset set_drop_subset subset_trans)

lemma py_slice_open: "py_slice a None xs =
    drop (case a of None \<Rightarrow> 0 | Some i \<Rightarrow> py_bound (length xs) i) xs"
  by (simp add: py_slice_def Let_def)

lemma py_slice_nth:
  assumes "a \<le> b" and "b \<le> length xs"
  shows "py_slice (Some (int a)) (Some (int b)) xs = map (\<lambda>i. xs ! i) [a..<b]"
proof -
  have "py_slice (Some (int a)) (Some (int b)) xs = take (b - a) (drop a xs)"
    using assms by (simp add: py_slice_def py_bound_def Let_def min_def)
  also have "\<dots> = map (\<lambda>i. xs ! i) [a..<b]"
    using assms by (auto simp: list_eq_iff_nth_eq)
  finally show ?thesis .
qed

lemma floor_third: "\<lfloor>real n / 3\<rfloor> = int (n div 3)"
  using floor_divide_of_nat_eq[of n 3, where ?'a = real] by simp

lemma ceiling_two_thirds: "\<lceil>2 * real n / 3\<rceil> = int ((2 * n + 2) div 3)"
proof -
  have "\<lceil>2 * real n / 3\<rceil> = \<lceil>real_of_int (int (2 * n)) / real_of_int 3\<rceil>"
    by simp
  also have "\<dots> = - (- int (2 * n) div 3)"
    unfolding ceiling_divide_eq_div by simp
  also have "\<dots> = int ((2 * n + 2) div 3)"
    by (simp add: zdiv_int)
  finally show ?thesis .
qed

lemma two_thirds_le: "(2 * n + 2) div 3 \<le> (n::nat)"
  by presburger

lemma third_le_two_thirds: "n div 3 \<le> (2 * n + 2) div (3::nat)"
  by presburger

subsection \<open>The collaborators of the examples on data on the line\<close>

lemma sum_list_affine:
  fixes g :: "'a \<Rightarrow> real"
  shows "sum_list (map (\<lambda>p. a + b * g p) w) = real (length w) * a + b * sum_list (map g w)"
  by (induction w) (simp_all add: algebra_simps)

lemma sum_list_affine_times:
  fixes g :: "'a \<Rightarrow> real"
  shows "sum_list (map (\<lambda>p. g p * (a + b * g p)) w) =
     a * sum_list (map g w) + b * sum_list (map (\<lambda>p. (g p)\<^sup>2) w)"
  by (induction w) (simp_all add: algebra_simps power2_eq_square)

lemma sum_list_sq_dev:
  fixes g :: "'a \<Rightarrow> real"
  shows "sum_list (map (\<lambda>p. (g p - m)\<^sup>2) w) =
     sum_list (map (\<lambda>p. (g p)\<^sup>2) w) - 2 * m * sum_list (map g w) + real (length w) * m\<^sup>2"
  by (induction w) (simp_all add: power2_diff algebra_simps)

text \<open>With two distinct abscissae the normal equations of the line are regular.\<close>

lemma spread_nonzero:
  fixes g :: "'a \<Rightarrow> real"
  assumes "1 < card (g ` set w)"
  shows "real (length w) * sum_list (map (\<lambda>p. (g p)\<^sup>2) w) - (sum_list (map g w))\<^sup>2 \<noteq> 0"
proof
  let ?n = "real (length w)" and ?S = "sum_list (map g w)"
  let ?Q = "sum_list (map (\<lambda>p. (g p)\<^sup>2) w)"
  assume z: "?n * ?Q - ?S\<^sup>2 = 0"
  have ne: "w \<noteq> []" using assms by auto
  then have n: "?n \<noteq> 0" by simp
  define m where "m = ?S / ?n"
  have S: "?S = ?n * m" using n by (simp add: m_def)
  have "?n * sum_list (map (\<lambda>p. (g p - m)\<^sup>2) w) = ?n * ?Q - 2 * m * ?n * ?S + (?n * m)\<^sup>2"
    unfolding sum_list_sq_dev by (simp add: algebra_simps power2_eq_square)
  also have "\<dots> = ?n * ?Q - ?S\<^sup>2"
    unfolding S by (simp add: algebra_simps power2_eq_square)
  finally have "sum_list (map (\<lambda>p. (g p - m)\<^sup>2) w) = 0"
    using z n by simp
  then have "\<forall>x \<in> set (map (\<lambda>p. (g p - m)\<^sup>2) w). x = 0"
    by (subst (asm) sum_list_nonneg_eq_0_iff) auto
  then have "g ` set w \<subseteq> {m}" by auto
  then have "card (g ` set w) \<le> card {m}"
    by (intro card_mono) auto
  with assms show False by simp
qed

lemma lsq_line_exact:
  fixes g :: "'a \<Rightarrow> real"
  assumes "1 < card (g ` set w)"
  shows "lsq_line (map g w) (map (\<lambda>p. a + b * g p) w) = (a, b)"
proof -
  let ?n = "real (length w)" and ?S = "sum_list (map g w)"
  let ?Q = "sum_list (map (\<lambda>p. (g p)\<^sup>2) w)"
  have D: "?n * ?Q - ?S\<^sup>2 \<noteq> 0" by (rule spread_nonzero[OF assms])
  have ne: "w \<noteq> []" using assms by auto
  then have n: "?n \<noteq> 0" by simp
  have sxx: "sum_list (map (\<lambda>x. x\<^sup>2) (map g w)) = ?Q"
    by (simp add: o_def)
  have sxy: "sum_list (map (\<lambda>(x, y). x * y) (zip (map g w) (map (\<lambda>p. a + b * g p) w))) =
      a * ?S + b * ?Q"
    by (simp add: zip_map_map zip_same_conv_map o_def sum_list_affine_times)
  have sy: "sum_list (map (\<lambda>p. a + b * g p) w) = ?n * a + b * ?S"
    by (rule sum_list_affine)
  have num: "?n * (a * ?S + b * ?Q) - ?S * (?n * a + b * ?S) = b * (?n * ?Q - ?S\<^sup>2)"
    by (simp add: algebra_simps power2_eq_square)
  have slope: "(?n * (a * ?S + b * ?Q) - ?S * (?n * a + b * ?S)) / (?n * ?Q - ?S\<^sup>2) = b"
    unfolding num using D by simp
  have icpt: "(?n * a + b * ?S - b * ?S) / ?n = a"
    using n by simp
  show ?thesis
    unfolding lsq_line_def Let_def sxx sxy sy length_map slope icpt by (rule refl)
qed

lemma polyfit_ex_on_line:
  fixes g :: "'a \<Rightarrow> real"
  assumes "1 \<le> deg" and "deg < card (g ` set w)"
  shows "polyfit_ex (map (\<lambda>p. Fin (g p)) w) (map (\<lambda>p. Fin (a + b * g p)) w) deg =
         Inr (Fin a # Fin b # replicate (deg - 1) (Fin 0))"
proof -
  have ne: "w \<noteq> []" using assms(2) by auto
  have two: "1 < card (g ` set w)" using assms by simp
  have xs: "map the_fin (map (\<lambda>p. Fin (g p)) w) = map g w"
    by (simp add: the_fin_def)
  have ys: "map the_fin (map (\<lambda>p. Fin (a + b * g p)) w) = map (\<lambda>p. a + b * g p) w"
    by (simp add: the_fin_def)
  have cnt: "length (remdups (map g w)) = card (g ` set w)"
    by (simp add: length_remdups_card_conv)
  have fin: "list_all is_fin (map (\<lambda>p. Fin (g p)) w)"
    "list_all is_fin (map (\<lambda>p. Fin (a + b * g p)) w)"
    by (simp_all add: list_all_iff is_fin_def)
  have line: "on_line (a, b) (map g w) (map (\<lambda>p. a + b * g p) w)"
    by (simp add: on_line_def list_all2_map1 list_all2_map2 list_all2_same)
  show ?thesis
    unfolding polyfit_ex_def Let_def xs ys lsq_line_exact[OF two] cnt
    using ne assms fin line by simp
qed

lemma sum_list_zero_sq: "sum_list (map (\<lambda>(y, p). (y - p)\<^sup>2) (zip ys ys)) = (0::real)"
  by (induction ys) simp_all

lemma r2_score_ex_perfect:
  assumes "2 \<le> length w"
  shows "r2_score_ex (map (\<lambda>p. Fin (h p)) w) (map (\<lambda>p. Fin (h p)) w) = Inr (Fin 1)"
proof -
  have ne: "w \<noteq> []" using assms by auto
  have fin: "list_all is_fin (map (\<lambda>p. Fin (h p)) w)"
    by (simp add: list_all_iff is_fin_def)
  have vals: "map the_fin (map (\<lambda>p. Fin (h p)) w) = map h w"
    by (simp add: the_fin_def)
  show ?thesis
    unfolding r2_score_ex_def Let_def vals sum_list_zero_sq
    using ne assms fin by simp
qed

text \<open>
  On data on a line \<^verbatim>\<open>e = a + b log10(stress)\<close>, with more than three distinct
  stresses in the TOP window and more than one in the NCL window, the method returns
  and both fits are the line.
\<close>

lemma np_ex_any_line_run:
  assumes iT: "idxTOP np_ex d rT = Inr (iT, jT)"
    and iN: "idxNCL np_ex d rN = Inr (iN, jN)"
    and line: "\<And>s e. (s, e) \<in> set (cleaned d) \<Longrightarrow> 0 < s \<and> e = a + b * log 10 s"
    and dT: "3 < card ((\<lambda>p. log 10 (fst p)) ` set (py_slice iT jT (cleaned d)))"
    and dN: "1 < card ((\<lambda>p. log 10 (fst p)) ` set (py_slice iN jN (cleaned d)))"
  shows "\<exists>r. getSigmaP_locals np_ex d rT rN = Inr r \<and>
           p1 r = [Fin a, Fin b, Fin 0, Fin 0] \<and>
           p2 r = [Fin a, Fin b] \<and> r2TOP r = Fin 1 \<and> r2NCL r = Fin 1"
proof -
  have win: "0 < fst p \<and> snd p = a + b * log 10 (fst p)"
    if "p \<in> set (py_slice i j (cleaned d))" for i j p
  proof -
    from that set_py_slice[of i j "cleaned d"] have "(fst p, snd p) \<in> set (cleaned d)"
      by auto
    then show ?thesis by (rule line)
  qed
  have logs: "map (\<lambda>s. flog10 (Fin s)) (py_slice i j (map fst (cleaned d))) =
      map (\<lambda>p. Fin (log 10 (fst p))) (py_slice i j (cleaned d))" for i j
    using win[of _ i j] by (simp add: py_slice_map)
  have es: "map Fin (py_slice i j (map snd (cleaned d))) =
      map (\<lambda>p. Fin (a + b * log 10 (fst p))) (py_slice i j (cleaned d))" for i j
    using win[of _ i j] by (simp add: py_slice_map)
  have card_len: "card (f ` set xs) \<le> length xs" for f :: "real \<times> real \<Rightarrow> real" and xs
    by (metis card_image_le card_length List.finite_set le_trans)
  have lenT: "3 < length (py_slice iT jT (cleaned d))"
    using dT card_len[of "\<lambda>p. log 10 (fst p)" "py_slice iT jT (cleaned d)"] by simp
  have lenN: "1 < length (py_slice iN jN (cleaned d))"
    using dN card_len[of "\<lambda>p. log 10 (fst p)" "py_slice iN jN (cleaned d)"] by simp
  have sub: "length (py_slice i j xs) \<le> length xs" for i j and xs :: "(real \<times> real) list"
    by (simp add: py_slice_def Let_def)
  have len: "2 \<le> length (cleaned d)"
    using lenN sub[of iN jN "cleaned d"] by simp
  have predT: "map (\<lambda>x. polyval x [Fin a, Fin b, Fin 0, Fin 0])
      (map (\<lambda>p. Fin (log 10 (fst p))) xs) =
      map (\<lambda>p. Fin (a + b * log 10 (fst p))) xs" for xs :: "(real \<times> real) list"
    by (simp add: polyval4)
  have predN: "map (\<lambda>x. polyval x [Fin a, Fin b])
      (map (\<lambda>p. Fin (log 10 (fst p))) xs) =
      map (\<lambda>p. Fin (a + b * log 10 (fst p))) xs" for xs :: "(real \<times> real) list"
    by (simp add: polyval2)
  show ?thesis
  proof (rule locals_returns[OF iT iN])
    show "polyfit np_ex (map (\<lambda>s. flog10 (Fin s)) (py_slice iT jT (map fst (cleaned d))))
        (map Fin (py_slice iT jT (map snd (cleaned d)))) 3 =
        Inr [Fin a, Fin b, Fin 0, Fin 0]"
      unfolding logs es using polyfit_ex_on_line[of 3, OF _ dT]
      by (simp add: np_ex_def numeral_eq_Suc)
    show "r2_score np_ex (map Fin (py_slice iT jT (map snd (cleaned d))))
        (map (\<lambda>x. polyval x [Fin a, Fin b, Fin 0, Fin 0])
          (map (\<lambda>s. flog10 (Fin s)) (py_slice iT jT (map fst (cleaned d))))) = Inr (Fin 1)"
      unfolding logs es predT using r2_score_ex_perfect[of "py_slice iT jT (cleaned d)"] lenT
      by (simp add: np_ex_def)
    show "polyfit np_ex (map (\<lambda>s. flog10 (Fin s)) (py_slice iN jN (map fst (cleaned d))))
        (map Fin (py_slice iN jN (map snd (cleaned d)))) 1 = Inr [Fin a, Fin b]"
      unfolding logs es using polyfit_ex_on_line[of 1, OF _ dN]
      by (simp add: np_ex_def)
    show "r2_score np_ex (map Fin (py_slice iN jN (map snd (cleaned d))))
        (map (\<lambda>x. polyval x [Fin a, Fin b])
          (map (\<lambda>s. flog10 (Fin s)) (py_slice iN jN (map fst (cleaned d))))) = Inr (Fin 1)"
      unfolding logs es predN using r2_score_ex_perfect[of "py_slice iN jN (cleaned d)"] lenN
      by (simp add: np_ex_def)
    show "py_slice iT jT (map fst (cleaned d)) \<noteq> []"
      using lenT by (auto simp: py_slice_map)
    show "py_slice iN jN (map fst (cleaned d)) \<noteq> []"
      using lenN by (auto simp: py_slice_map)
    show "2 \<le> length (cleaned d)" by (rule len)
  qed simp_all
qed

text \<open>The same for the line \<^verbatim>\<open>e = 1 - log10(stress) / 10\<close> of the thirteen-stage test.\<close>

lemma np_ex_line_run:
  assumes iT: "idxTOP np_ex d rT = Inr (iT, jT)"
    and iN: "idxNCL np_ex d rN = Inr (iN, jN)"
    and line: "\<And>s e. (s, e) \<in> set (cleaned d) \<Longrightarrow> 0 < s \<and> e = 1 - log 10 s / 10"
    and dT: "3 < card ((\<lambda>p. log 10 (fst p)) ` set (py_slice iT jT (cleaned d)))"
    and dN: "1 < card ((\<lambda>p. log 10 (fst p)) ` set (py_slice iN jN (cleaned d)))"
  shows "\<exists>r. getSigmaP_locals np_ex d rT rN = Inr r \<and>
           p1 r = [Fin 1, Fin (- 1 / 10), Fin 0, Fin 0] \<and>
           p2 r = [Fin 1, Fin (- 1 / 10)] \<and> r2TOP r = Fin 1 \<and> r2NCL r = Fin 1"
proof (rule np_ex_any_line_run[OF iT iN _ dT dN])
  fix s e
  assume "(s, e) \<in> set (cleaned d)"
  from line[OF this] show "0 < s \<and> e = 1 + - 1 / 10 * log 10 s"
    by simp
qed

lemma rows13_line: "(s, e) \<in> set rows13 \<Longrightarrow> 0 < s \<and> e = 1 - log 10 s / 10"
  by (auto simp: rows13_def log10_pows)

lemma series_max_rows13: "series_max (map fst rows13) = Fin 1000000000000"
  by (simp add: series_max_def rows13_def)

lemma nearest_rows13:
  "nearest 1000 (map fst rows13) = 3" "nearest 10000000 (map fst rows13) = 7"
  "nearest 10000 (map fst rows13) = 4" "nearest 100000000 (map fst rows13) = 8"
  "nearest 1000000000 (map fst rows13) = 9" "nearest 100000000000 (map fst rows13) = 11"
  "nearest 10000000000 (map fst rows13) = 10" "nearest 1000000000000 (map fst rows13) = 12"
  by (simp_all add: rows13_def)

lemma card_logs_rows13:
  "card ((\<lambda>p. log 10 (fst p)) ` set (py_slice (Some 4) (Some 9) rows13)) = 5"
  "card ((\<lambda>p. log 10 (fst p)) ` set (py_slice (Some 3) (Some 7) rows13)) = 4"
  "card ((\<lambda>p. log 10 (fst p)) ` set (py_slice (Some 4) (Some 8) rows13)) = 4"
  "card ((\<lambda>p. log 10 (fst p)) ` set (py_slice (Some (- 3)) None rows13)) = 3"
  "card ((\<lambda>p. log 10 (fst p)) ` set (py_slice (Some 9) (Some 11) rows13)) = 2"
  "card ((\<lambda>p. log 10 (fst p)) ` set (py_slice (Some 10) None rows13)) = 3"
  by (simp_all add: py_slice_def py_bound_def rows13_def log10_pows)

text \<open>The thirteen-stage test with the default windows: both fits are the line.\<close>

lemma rows13_default:
  assumes "cleaned d = rows13"
  shows "\<exists>r. getSigmaP_locals np_ex d None None = Inr r \<and>
           p1 r = [Fin 1, Fin (- 1 / 10), Fin 0, Fin 0] \<and>
           p2 r = [Fin 1, Fin (- 1 / 10)] \<and> r2TOP r = Fin 1 \<and> r2NCL r = Fin 1"
proof (rule np_ex_line_run)
  show "idxTOP np_ex d None = Inr (Some 4, Some 9)"
    by (simp add: idxTOP_def assms rows13_def)
  show "idxNCL np_ex d None = Inr (Some (- 3), None)"
    by (simp add: idxNCL_def)
qed (simp_all add: assms rows13_line card_logs_rows13)

subsection \<open>The intersection\<close>



text \<open>
  The thirteen-stage test (in-situ stress 10, recompression index 1/20): the fits are
  the line \<^verbatim>\<open>1 - x/10\<close>, the reference line has the intercept 19/20, and the
  pressure is \<^verbatim>\<open>10 ** ((1 - 19/20) / (-1/20 + 1/10)) = 10\<close>.
\<close>

lemma d13_run:
  "\<exists>r. getSigmaP_locals np_ex d13 None None = Inr r \<and>
     p1 r = [Fin 1, Fin (- 1 / 10), Fin 0, Fin 0] \<and> p2 r = [Fin 1, Fin (- 1 / 10)] \<and>
     eSigmaV r = Fin (9 / 10) \<and> eCr r = Fin (19 / 20)"
proof -
  from rows13_default[of d13] obtain r where
    run: "getSigmaP_locals np_ex d13 None None = Inr r"
    and p1: "p1 r = [Fin 1, Fin (- 1 / 10), Fin 0, Fin 0]"
    and p2: "p2 r = [Fin 1, Fin (- 1 / 10)]"
    by (auto simp: d13_def)
  from locals_InrD[OF run] have
    ev: "eSigmaV r = polyval (flog10 (Fin (sigmaV d13))) (p1 r)" and
    ec: "eCr r = fsub (eSigmaV r) (fmul (fneg (Fin (idxCr d13))) (flog10 (Fin (sigmaV d13))))"
    by blast+
  have ev': "eSigmaV r = Fin (9 / 10)"
    unfolding ev p1 by (simp add: d13_def log10_pows polyval4)
  have "eCr r = Fin (19 / 20)"
    unfolding ec ev' by (simp add: d13_def log10_pows fsub_def)
  with run p1 p2 ev' show ?thesis by blast
qed


lemma locals_sigmaP_fin:
  assumes "getSigmaP_locals L d rT rN = Inr r"
    and "p2 r = [Fin a, Fin b]" and "eCr r = Fin c" and "- idxCr d \<noteq> b"
  shows "sigmaP r = Fin (10 powr ((a - c) / (- idxCr d - b)))"
    and "eSigmaP r = Fin (a + b * ((a - c) / (- idxCr d - b)))"
proof -
  have nz: "- idxCr d - b \<noteq> 0" using assms(4) by simp
  from locals_InrD[OF assms(1)] have
    sp: "sigmaP r =
      fpow10 (fdiv (fsub (p2 r ! 0) (eCr r)) (fsub (fneg (Fin (idxCr d))) (p2 r ! 1)))"
    and ep: "eSigmaP r = polyval (flog10 (sigmaP r)) (p2 r)"
    by blast+
  show s: "sigmaP r = Fin (10 powr ((a - c) / (- idxCr d - b)))"
    unfolding sp using nz by (simp add: assms(2,3) fsub_def)
  show "eSigmaP r = Fin (a + b * ((a - c) / (- idxCr d - b)))"
    unfolding ep s assms(2) by (simp add: polyval2)
qed



subsection \<open>The reference line\<close>

lemma fsub_fmul_fneg: "fsub a (fmul (fneg (Fin k)) l) = fadd a (fmul (Fin k) l)"
proof -
  have "fneg (fmul (fneg (Fin k)) l) = fmul (Fin k) l"
    by (cases l) (auto simp: inf_times_def)
  then show ?thesis by (simp add: fsub_def)
qed

text \<open>
  C5. When the method returns, \<^verbatim>\<open>eSigmaV\<close> is numpy's \<^verbatim>\<open>polyval\<close> of the four
  coefficients of the TOP fit at \<^verbatim>\<open>log10(sigmaV)\<close>, and
  \<^verbatim>\<open>eCr = eSigmaV + idxCr * log10(sigmaV)\<close> in float64 arithmetic. For a positive
  \<^verbatim>\<open>sigmaV\<close> and finite coefficients this is the cubic
  \<^verbatim>\<open>p1_0 + p1_1 x + p1_2 x\<^sup>2 + p1_3 x\<^sup>3\<close> at \<^verbatim>\<open>x = log10(sigmaV)\<close>, and the line
  with intercept \<^verbatim>\<open>eCr\<close> and slope \<^verbatim>\<open>-idxCr\<close> passes through
  \<^verbatim>\<open>(log10(sigmaV), eSigmaV)\<close>.
\<close>

theorem C5_eSigmaV_and_eCr:
  assumes "getSigmaP L self rT rN = (Inr r, self')"
  shows "length (p1 r) = 4 \<and>
         eSigmaV r = polyval (flog10 (Fin (sigmaV (data self)))) (p1 r) \<and>
         eCr r = fadd (eSigmaV r)
                   (fmul (Fin (idxCr (data self))) (flog10 (Fin (sigmaV (data self))))) \<and>
         (\<forall>a b c e. 0 < sigmaV (data self) \<longrightarrow> p1 r = [Fin a, Fin b, Fin c, Fin e] \<longrightarrow>
            eSigmaV r = Fin (a + b * log 10 (sigmaV (data self))
                             + c * (log 10 (sigmaV (data self)))\<^sup>2
                             + e * (log 10 (sigmaV (data self))) ^ 3) \<and>
            eCr r = Fin (a + b * log 10 (sigmaV (data self))
                           + c * (log 10 (sigmaV (data self)))\<^sup>2
                           + e * (log 10 (sigmaV (data self))) ^ 3
                           + idxCr (data self) * log 10 (sigmaV (data self))) \<and>
            polyval (flog10 (Fin (sigmaV (data self))))
               [eCr r, fneg (Fin (idxCr (data self)))] = eSigmaV r)"
proof -
  from assms have run: "getSigmaP_locals L (data self) rT rN = Inr r"
    by (simp add: getSigmaP_Inr)
  from locals_InrD[OF run] have len: "length (p1 r) = 4"
    and ev: "eSigmaV r = polyval (flog10 (Fin (sigmaV (data self)))) (p1 r)"
    and ec0: "eCr r = fsub (eSigmaV r)
        (fmul (fneg (Fin (idxCr (data self)))) (flog10 (Fin (sigmaV (data self)))))"
    by blast+
  have ec: "eCr r = fadd (eSigmaV r)
      (fmul (Fin (idxCr (data self))) (flog10 (Fin (sigmaV (data self)))))"
    unfolding ec0 by (rule fsub_fmul_fneg)
  have fin: "eSigmaV r = Fin (a + b * log 10 (sigmaV (data self))
                             + c * (log 10 (sigmaV (data self)))\<^sup>2
                             + e * (log 10 (sigmaV (data self))) ^ 3) \<and>
            eCr r = Fin (a + b * log 10 (sigmaV (data self))
                           + c * (log 10 (sigmaV (data self)))\<^sup>2
                           + e * (log 10 (sigmaV (data self))) ^ 3
                           + idxCr (data self) * log 10 (sigmaV (data self))) \<and>
            polyval (flog10 (Fin (sigmaV (data self))))
               [eCr r, fneg (Fin (idxCr (data self)))] = eSigmaV r"
    if pos: "0 < sigmaV (data self)" and p1: "p1 r = [Fin a, Fin b, Fin c, Fin e]"
    for a b c e
  proof -
    have lg: "flog10 (Fin (sigmaV (data self))) = Fin (log 10 (sigmaV (data self)))"
      using pos by simp
    have v: "eSigmaV r = Fin (a + b * log 10 (sigmaV (data self))
                             + c * (log 10 (sigmaV (data self)))\<^sup>2
                             + e * (log 10 (sigmaV (data self))) ^ 3)"
      unfolding ev p1 lg by (rule polyval4)
    have c: "eCr r = Fin (a + b * log 10 (sigmaV (data self))
                           + c * (log 10 (sigmaV (data self)))\<^sup>2
                           + e * (log 10 (sigmaV (data self))) ^ 3
                           + idxCr (data self) * log 10 (sigmaV (data self)))"
      unfolding ec v lg by simp
    have "polyval (flog10 (Fin (sigmaV (data self))))
        [eCr r, fneg (Fin (idxCr (data self)))] = eSigmaV r"
      unfolding lg c v by (simp add: polyval2)
    with v c show ?thesis by blast
  qed
  from len ev ec fin show ?thesis by blast
qed

text \<open>
  In the thirteen-stage test \<^verbatim>\<open>log10(sigmaV) = 1\<close>, the cubic is the line
  \<^verbatim>\<open>1 - x/10\<close>, so \<^verbatim>\<open>eSigmaV = 9/10\<close> and \<^verbatim>\<open>eCr = 9/10 + 1/20\<close>.
\<close>

theorem C5_eSigmaV_and_eCr_witness:
  "map_sum id eSigmaV
     (fst (getSigmaP np_ex \<lparr>data = d13, self_sigmaP = None\<rparr> None None)) =
     Inr (Fin (9 / 10)) \<and>
   map_sum id eCr
     (fst (getSigmaP np_ex \<lparr>data = d13, self_sigmaP = None\<rparr> None None)) =
     Inr (Fin (19 / 20))"
proof -
  from rows13_default[of d13] obtain r where
    run: "getSigmaP_locals np_ex d13 None None = Inr r"
    and p1: "p1 r = [Fin 1, Fin (- 1 / 10), Fin 0, Fin 0]"
    by (auto simp: d13_def)
  let ?self = "\<lparr>data = d13, self_sigmaP = None\<rparr>"
  have call: "getSigmaP np_ex ?self None None =
      (Inr r, ?self\<lparr>self_sigmaP := Some (sigmaP r)\<rparr>)"
    by (simp add: getSigmaP_def run)
  have pos: "0 < sigmaV (data ?self)" by (simp add: d13_def)
  from C5_eSigmaV_and_eCr[OF call] pos p1
  have "eSigmaV r = Fin (1 + (- 1 / 10) * log 10 (sigmaV (data ?self))
                             + 0 * (log 10 (sigmaV (data ?self)))\<^sup>2
                             + 0 * (log 10 (sigmaV (data ?self))) ^ 3)"
    and "eCr r = Fin (1 + (- 1 / 10) * log 10 (sigmaV (data ?self))
                           + 0 * (log 10 (sigmaV (data ?self)))\<^sup>2
                           + 0 * (log 10 (sigmaV (data ?self))) ^ 3
                           + idxCr (data ?self) * log 10 (sigmaV (data ?self)))"
    by blast+
  then have "eSigmaV r = Fin (9 / 10)" and "eCr r = Fin (19 / 20)"
    by (simp_all add: d13_def log10_pows)
  then show ?thesis by (simp add: call)
qed

text \<open>
  C4. When the method returns and \<^verbatim>\<open>range2fitTOP\<close> is omitted, the TOP window is the
  rows of the cleaned frame at the positions from \<^verbatim>\<open>floor(n/3)\<close> (included) to
  \<^verbatim>\<open>ceil(2n/3)\<close> (excluded), \<^verbatim>\<open>n\<close> being the number of rows; these bounds are
  \<^verbatim>\<open>n div 3\<close> and \<^verbatim>\<open>(2n + 2) div 3\<close>. When the range is supplied, both bounds of the
  slice are what \<^verbatim>\<open>findStressIdx\<close> returns for the two stresses on the cleaned
  frame.
\<close>

theorem C4_TOP_window:
  assumes "getSigmaP L self rT rN = (Inr r, self')"
    and "n = length (cleaned (data self))"
  shows "(rT = None \<longrightarrow>
            sigmaTOP r = map (\<lambda>i. fst (cleaned (data self) ! i))
                           [nat \<lfloor>real n / 3\<rfloor> ..< nat \<lceil>2 * real n / 3\<rceil>] \<and>
            eTOP r = map (\<lambda>i. snd (cleaned (data self) ! i))
                       [nat \<lfloor>real n / 3\<rfloor> ..< nat \<lceil>2 * real n / 3\<rceil>] \<and>
            nat \<lfloor>real n / 3\<rfloor> = n div 3 \<and>
            nat \<lceil>2 * real n / 3\<rceil> = (2 * n + 2) div 3 \<and>
            nat \<lceil>2 * real n / 3\<rceil> \<le> n) \<and>
         (\<forall>lo hi. rT = Some (lo, hi) \<longrightarrow>
            (\<exists>i j. findStressIdx L (data self) lo True = Inr i \<and>
                   findStressIdx L (data self) hi True = Inr j \<and>
                   sigmaTOP r = py_slice i j (map fst (cleaned (data self))) \<and>
                   eTOP r = py_slice i j (map snd (cleaned (data self)))))"
proof -
  let ?d = "data self"
  from assms(1) have run: "getSigmaP_locals L ?d rT rN = Inr r"
    by (simp add: getSigmaP_Inr)
  from locals_InrD[OF run] obtain iT jT where
    idx: "idxTOP L ?d rT = Inr (iT, jT)"
    and ws: "sigmaTOP r = py_slice iT jT (map fst (cleaned ?d))"
    and we: "eTOP r = py_slice iT jT (map snd (cleaned ?d))"
    by blast
  have lo: "nat \<lfloor>real n / 3\<rfloor> = n div 3"
    by (simp add: floor_third)
  have hi: "nat \<lceil>2 * real n / 3\<rceil> = (2 * n + 2) div 3"
    by (simp add: ceiling_two_thirds)
  have default: "sigmaTOP r = map (\<lambda>i. fst (cleaned ?d ! i))
                           [nat \<lfloor>real n / 3\<rfloor> ..< nat \<lceil>2 * real n / 3\<rceil>] \<and>
            eTOP r = map (\<lambda>i. snd (cleaned ?d ! i))
                       [nat \<lfloor>real n / 3\<rfloor> ..< nat \<lceil>2 * real n / 3\<rceil>]"
    if "rT = None"
  proof -
    from idx that have b: "iT = Some (int (n div 3))" "jT = Some (int ((2 * n + 2) div 3))"
      by (simp_all add: idxTOP_def assms(2) floor_third ceiling_two_thirds)
    have le: "n div 3 \<le> (2 * n + 2) div 3" by (rule third_le_two_thirds)
    have s: "sigmaTOP r = map (\<lambda>i. map fst (cleaned ?d) ! i) [n div 3 ..< (2 * n + 2) div 3]"
      unfolding ws b
      by (rule py_slice_nth[OF le]) (simp add: assms(2)[symmetric] two_thirds_le)
    have e: "eTOP r = map (\<lambda>i. map snd (cleaned ?d) ! i) [n div 3 ..< (2 * n + 2) div 3]"
      unfolding we b
      by (rule py_slice_nth[OF le]) (simp add: assms(2)[symmetric] two_thirds_le)
    have inr: "i < length (cleaned ?d)" if "i \<in> set [n div 3 ..< (2 * n + 2) div 3]" for i
      using that two_thirds_le[of n] by (simp add: assms(2))
    from s e inr show ?thesis
      unfolding lo hi by (simp cong: map_cong)
  qed
  have given: "\<exists>i j. findStressIdx L ?d lo' True = Inr i \<and>
                   findStressIdx L ?d hi' True = Inr j \<and>
                   sigmaTOP r = py_slice i j (map fst (cleaned ?d)) \<and>
                   eTOP r = py_slice i j (map snd (cleaned ?d))"
    if "rT = Some (lo', hi')" for lo' hi'
    using idx that ws we by (auto simp: idxTOP_def bnd_Inr_iff)
  from default given lo hi two_thirds_le[of n] show ?thesis
    by (simp only: hi) blast
qed

text \<open>
  The thirteen-stage test: by default the TOP window is the rows 4 to 8; with the
  range (1000, 10000000) the method asks \<^verbatim>\<open>findStressIdx\<close>, which resolves it to
  the bounds 3 and 7.
\<close>

theorem C4_TOP_window_witness:
  "map_sum id sigmaTOP
     (fst (getSigmaP np_ex \<lparr>data = d13, self_sigmaP = None\<rparr> None None)) =
     Inr [10000, 100000, 1000000, 10000000, 100000000] \<and>
   map_sum id sigmaTOP
     (fst (getSigmaP np_ex \<lparr>data = d13, self_sigmaP = None\<rparr>
        (Some (1000, 10000000)) None)) =
     Inr [1000, 10000, 100000, 1000000]"
proof -
  let ?self = "\<lparr>data = d13, self_sigmaP = None\<rparr>"
  have n: "13 = length (cleaned (data ?self))"
    by (simp add: d13_def rows13_def)
  from rows13_default[of d13] obtain r where
    run: "getSigmaP_locals np_ex d13 None None = Inr r"
    by (auto simp: d13_def)
  have call: "getSigmaP np_ex ?self None None =
      (Inr r, ?self\<lparr>self_sigmaP := Some (sigmaP r)\<rparr>)"
    by (simp add: getSigmaP_def run)
  from C4_TOP_window[OF call n]
  have "sigmaTOP r = map (\<lambda>i. fst (cleaned (data ?self) ! i))
      [nat \<lfloor>real 13 / 3\<rfloor> ..< nat \<lceil>2 * real 13 / 3\<rceil>]"
    by blast
  then have w1: "sigmaTOP r = [10000, 100000, 1000000, 10000000, 100000000]"
    by (simp add: d13_def rows13_def upt_rec)
  have iT: "idxTOP np_ex d13 (Some (1000, 10000000)) = Inr (Some 3, Some 7)"
    by (simp add: idxTOP_def bnd_def np_ex_def findStressIdx_nearest_def d13_def
        nearest_rows13) (simp add: rows13_def)
  have iN: "idxNCL np_ex d13 None = Inr (Some (- 3), None)"
    by (simp add: idxNCL_def)
  have "\<exists>r. getSigmaP_locals np_ex d13 (Some (1000, 10000000)) None = Inr r \<and>
      p1 r = [Fin 1, Fin (- 1 / 10), Fin 0, Fin 0] \<and> p2 r = [Fin 1, Fin (- 1 / 10)] \<and>
      r2TOP r = Fin 1 \<and> r2NCL r = Fin 1"
    by (rule np_ex_line_run[OF iT iN])
      (simp_all add: d13_def rows13_line card_logs_rows13)
  then obtain r' where
    run': "getSigmaP_locals np_ex d13 (Some (1000, 10000000)) None = Inr r'"
    by blast
  have call': "getSigmaP np_ex ?self (Some (1000, 10000000)) None =
      (Inr r', ?self\<lparr>self_sigmaP := Some (sigmaP r')\<rparr>)"
    by (simp add: getSigmaP_def run')
  from C4_TOP_window[OF call' n] obtain i j where
    fi: "findStressIdx np_ex (data ?self) 1000 True = Inr i"
    and fj: "findStressIdx np_ex (data ?self) 10000000 True = Inr j"
    and w: "sigmaTOP r' = py_slice i j (map fst (cleaned (data ?self)))"
    by blast
  have "findStressIdx np_ex (data ?self) 1000 True = Inr (Some 3)"
    and "findStressIdx np_ex (data ?self) 10000000 True = Inr (Some 7)"
    by (simp_all add: np_ex_def findStressIdx_nearest_def d13_def nearest_rows13)
      (simp_all add: rows13_def)
  with fi fj have "i = Some 3" and "j = Some 7"
    by simp_all
  with w have w2: "sigmaTOP r' = [1000, 10000, 100000, 1000000]"
    by (simp add: d13_def rows13_def py_slice_def py_bound_def)
  from w1 w2 show ?thesis by (simp add: call call')
qed

lemma py_slice_last3: "py_slice (Some (- 3)) None xs = drop (length xs - 3) xs"
proof -
  have "nat (int (length xs) - 3) = length xs - 3" by simp
  then show ?thesis by (simp add: py_slice_def py_bound_def)
qed

text \<open>
  C3. When the method returns and \<^verbatim>\<open>range2fitNCL\<close> is omitted, the NCL window is
  the last three rows of the cleaned frame (all of them when there are fewer than
  three). When the range is supplied, the start bound of the slice is what
  \<^verbatim>\<open>findStressIdx\<close> returns for the start stress; the end bound is what it returns
  for the end stress, unless the end stress is equal to or above the largest cleaned
  stress: then the slice is open and runs to the last row.
\<close>

theorem C3_NCL_window:
  assumes "getSigmaP L self rT rN = (Inr r, self')"
    and "n = length (cleaned (data self))"
  shows "(rN = None \<longrightarrow>
            sigmaNCL r = map fst (drop (n - 3) (cleaned (data self))) \<and>
            eNCL r = map snd (drop (n - 3) (cleaned (data self))) \<and>
            (3 \<le> n \<longrightarrow> length (sigmaNCL r) = 3 \<and> length (eNCL r) = 3)) \<and>
         (\<forall>lo hi. rN = Some (lo, hi) \<longrightarrow>
            (\<exists>i. findStressIdx L (data self) lo True = Inr i \<and>
               (if Max (set (map fst (cleaned (data self)))) \<le> hi
                then sigmaNCL r =
                       drop (case i of None \<Rightarrow> 0 | Some k \<Rightarrow> py_bound n k)
                         (map fst (cleaned (data self))) \<and>
                     eNCL r =
                       drop (case i of None \<Rightarrow> 0 | Some k \<Rightarrow> py_bound n k)
                         (map snd (cleaned (data self)))
                else (\<exists>j. findStressIdx L (data self) hi True = Inr j \<and>
                        sigmaNCL r = py_slice i j (map fst (cleaned (data self))) \<and>
                        eNCL r = py_slice i j (map snd (cleaned (data self)))))))"
proof -
  let ?d = "data self"
  from assms(1) have run: "getSigmaP_locals L ?d rT rN = Inr r"
    by (simp add: getSigmaP_Inr)
  from locals_InrD[OF run] obtain iN jN where
    idx: "idxNCL L ?d rN = Inr (iN, jN)"
    and ws: "sigmaNCL r = py_slice iN jN (map fst (cleaned ?d))"
    and we: "eNCL r = py_slice iN jN (map snd (cleaned ?d))"
    and len: "2 \<le> length (cleaned ?d)"
    by blast
  have ne: "map fst (cleaned ?d) \<noteq> []" using len by auto
  have default: "sigmaNCL r = map fst (drop (n - 3) (cleaned ?d)) \<and>
            eNCL r = map snd (drop (n - 3) (cleaned ?d)) \<and>
            (3 \<le> n \<longrightarrow> length (sigmaNCL r) = 3 \<and> length (eNCL r) = 3)"
    if "rN = None"
  proof -
    from idx that have b: "iN = Some (- 3)" "jN = None"
      by (simp_all add: idxNCL_def)
    show ?thesis
      unfolding ws we b py_slice_last3 by (auto simp: assms(2) drop_map)
  qed
  have given: "\<exists>i. findStressIdx L ?d lo' True = Inr i \<and>
               (if Max (set (map fst (cleaned ?d))) \<le> hi'
                then sigmaNCL r =
                       drop (case i of None \<Rightarrow> 0 | Some k \<Rightarrow> py_bound n k)
                         (map fst (cleaned ?d)) \<and>
                     eNCL r =
                       drop (case i of None \<Rightarrow> 0 | Some k \<Rightarrow> py_bound n k)
                         (map snd (cleaned ?d))
                else (\<exists>j. findStressIdx L ?d hi' True = Inr j \<and>
                        sigmaNCL r = py_slice i j (map fst (cleaned ?d)) \<and>
                        eNCL r = py_slice i j (map snd (cleaned ?d))))"
    if rN: "rN = Some (lo', hi')" for lo' hi'
  proof -
    have cmp: "flt (Fin hi') (series_max (map fst (cleaned ?d))) \<longleftrightarrow>
        \<not> Max (set (map fst (cleaned ?d))) \<le> hi'"
      using ne by (simp only: series_max_def if_False flt.simps not_le)
    from idx rN obtain i where
      fi: "findStressIdx L ?d lo' True = Inr i"
      and rest: "(if flt (Fin hi') (series_max (map fst (cleaned ?d)))
           then bnd (findStressIdx L ?d hi' True) (\<lambda>idxEndNCL. Inr (i, idxEndNCL))
           else Inr (i, None)) = Inr (iN, jN)"
      by (auto simp: idxNCL_def bnd_Inr_iff)
    show ?thesis
    proof (cases "Max (set (map fst (cleaned ?d))) \<le> hi'")
      case True
      with rest cmp have "iN = i" "jN = None" by simp_all
      with ws we fi True show ?thesis
        by (cases i) (simp_all add: py_slice_open assms(2))
    next
      case False
      with rest cmp obtain j where "findStressIdx L ?d hi' True = Inr j" "iN = i" "jN = j"
        by (auto simp: bnd_Inr_iff)
      with ws we fi False show ?thesis by auto
    qed
  qed
  from default given show ?thesis by blast
qed

text \<open>
  The thirteen-stage test: the default window is the rows 10 to 12; the range from
  \<^verbatim>\<open>10^9\<close> to \<^verbatim>\<open>10^11\<close> (below the largest stress \<^verbatim>\<open>10^12\<close>) is resolved to the
  slice from 9 to 11; the range from \<^verbatim>\<open>10^10\<close> to \<^verbatim>\<open>10^12\<close> runs from row 10 to the
  last row.
\<close>

theorem C3_NCL_window_witness:
  "map_sum id sigmaNCL
     (fst (getSigmaP np_ex \<lparr>data = d13, self_sigmaP = None\<rparr> None None)) =
     Inr [10000000000, 100000000000, 1000000000000] \<and>
   map_sum id sigmaNCL
     (fst (getSigmaP np_ex \<lparr>data = d13, self_sigmaP = None\<rparr> None
        (Some (1000000000, 100000000000)))) =
     Inr [1000000000, 10000000000] \<and>
   map_sum id sigmaNCL
     (fst (getSigmaP np_ex \<lparr>data = d13, self_sigmaP = None\<rparr> None
        (Some (10000000000, 1000000000000)))) =
     Inr [10000000000, 100000000000, 1000000000000]"
proof -
  let ?self = "\<lparr>data = d13, self_sigmaP = None\<rparr>"
  have n: "13 = length (cleaned (data ?self))"
    by (simp add: d13_def rows13_def)
  have mx: "Max (set (map fst (cleaned (data ?self)))) = 1000000000000"
    by (simp add: d13_def rows13_def)
  have iT: "idxTOP np_ex d13 None = Inr (Some 4, Some 9)"
    by (simp add: idxTOP_def d13_def rows13_def)
  have f9: "findStressIdx np_ex (data ?self) 1000000000 True = Inr (Some 9)"
    and f10: "findStressIdx np_ex (data ?self) 10000000000 True = Inr (Some 10)"
    and f11: "findStressIdx np_ex (data ?self) 100000000000 True = Inr (Some 11)"
    by (simp_all add: np_ex_def findStressIdx_nearest_def d13_def nearest_rows13)
      (simp_all add: rows13_def)
  \<comment> \<open>the default window\<close>
  from rows13_default[of d13] obtain r where
    run: "getSigmaP_locals np_ex d13 None None = Inr r"
    by (auto simp: d13_def)
  have call: "getSigmaP np_ex ?self None None =
      (Inr r, ?self\<lparr>self_sigmaP := Some (sigmaP r)\<rparr>)"
    by (simp add: getSigmaP_def run)
  from C3_NCL_window[OF call n]
  have "sigmaNCL r = map fst (drop (13 - 3) (cleaned (data ?self)))"
    by blast
  then have w1: "sigmaNCL r = [10000000000, 100000000000, 1000000000000]"
    by (simp add: d13_def rows13_def)
  \<comment> \<open>an end stress below the largest stress\<close>
  have iN2: "idxNCL np_ex d13 (Some (1000000000, 100000000000)) = Inr (Some 9, Some 11)"
    using f9 f11 by (simp add: idxNCL_def bnd_def d13_def series_max_rows13)
  have "\<exists>r. getSigmaP_locals np_ex d13 None (Some (1000000000, 100000000000)) = Inr r \<and>
      p1 r = [Fin 1, Fin (- 1 / 10), Fin 0, Fin 0] \<and> p2 r = [Fin 1, Fin (- 1 / 10)] \<and>
      r2TOP r = Fin 1 \<and> r2NCL r = Fin 1"
    by (rule np_ex_line_run[OF iT iN2])
      (simp_all add: d13_def rows13_line card_logs_rows13)
  then obtain r2 where
    run2: "getSigmaP_locals np_ex d13 None (Some (1000000000, 100000000000)) = Inr r2"
    by blast
  have call2: "getSigmaP np_ex ?self None (Some (1000000000, 100000000000)) =
      (Inr r2, ?self\<lparr>self_sigmaP := Some (sigmaP r2)\<rparr>)"
    by (simp add: getSigmaP_def run2)
  from C3_NCL_window[OF call2 n] obtain i where
    fi: "findStressIdx np_ex (data ?self) 1000000000 True = Inr i"
    and alt: "if Max (set (map fst (cleaned (data ?self)))) \<le> 100000000000
       then sigmaNCL r2 =
              drop (case i of None \<Rightarrow> 0 | Some k \<Rightarrow> py_bound 13 k)
                (map fst (cleaned (data ?self))) \<and>
            eNCL r2 =
              drop (case i of None \<Rightarrow> 0 | Some k \<Rightarrow> py_bound 13 k)
                (map snd (cleaned (data ?self)))
       else (\<exists>j. findStressIdx np_ex (data ?self) 100000000000 True = Inr j \<and>
               sigmaNCL r2 = py_slice i j (map fst (cleaned (data ?self))) \<and>
               eNCL r2 = py_slice i j (map snd (cleaned (data ?self))))"
    by blast
  from alt obtain j where
    fj: "findStressIdx np_ex (data ?self) 100000000000 True = Inr j"
    and w: "sigmaNCL r2 = py_slice i j (map fst (cleaned (data ?self)))"
    unfolding mx by auto
  from fi fj f9 f11 have "i = Some 9" and "j = Some 11" by simp_all
  with w have w2: "sigmaNCL r2 = [1000000000, 10000000000]"
    by (simp add: d13_def rows13_def py_slice_def py_bound_def)
  \<comment> \<open>an end stress equal to the largest stress\<close>
  have iN3: "idxNCL np_ex d13 (Some (10000000000, 1000000000000)) = Inr (Some 10, None)"
    using f10 by (simp add: idxNCL_def bnd_def d13_def series_max_rows13)
  have "\<exists>r. getSigmaP_locals np_ex d13 None (Some (10000000000, 1000000000000)) = Inr r \<and>
      p1 r = [Fin 1, Fin (- 1 / 10), Fin 0, Fin 0] \<and> p2 r = [Fin 1, Fin (- 1 / 10)] \<and>
      r2TOP r = Fin 1 \<and> r2NCL r = Fin 1"
    by (rule np_ex_line_run[OF iT iN3])
      (simp_all add: d13_def rows13_line card_logs_rows13)
  then obtain r3 where
    run3: "getSigmaP_locals np_ex d13 None (Some (10000000000, 1000000000000)) = Inr r3"
    by blast
  have call3: "getSigmaP np_ex ?self None (Some (10000000000, 1000000000000)) =
      (Inr r3, ?self\<lparr>self_sigmaP := Some (sigmaP r3)\<rparr>)"
    by (simp add: getSigmaP_def run3)
  from C3_NCL_window[OF call3 n] obtain i' where
    fi': "findStressIdx np_ex (data ?self) 10000000000 True = Inr i'"
    and alt': "if Max (set (map fst (cleaned (data ?self)))) \<le> 1000000000000
       then sigmaNCL r3 =
              drop (case i' of None \<Rightarrow> 0 | Some k \<Rightarrow> py_bound 13 k)
                (map fst (cleaned (data ?self))) \<and>
            eNCL r3 =
              drop (case i' of None \<Rightarrow> 0 | Some k \<Rightarrow> py_bound 13 k)
                (map snd (cleaned (data ?self)))
       else (\<exists>j. findStressIdx np_ex (data ?self) 1000000000000 True = Inr j \<and>
               sigmaNCL r3 = py_slice i' j (map fst (cleaned (data ?self))) \<and>
               eNCL r3 = py_slice i' j (map snd (cleaned (data ?self))))"
    by blast
  from fi' f10 have "i' = Some 10" by simp
  with alt' have w3: "sigmaNCL r3 = [10000000000, 100000000000, 1000000000000]"
    unfolding mx by (simp add: d13_def rows13_def py_bound_def)
  from w1 w2 w3 show ?thesis by (simp add: call call2 call3)
qed

subsection \<open>Parallel lines\<close>

lemma raises_np_ex:
  assumes "raises np_ex e"
  shows "e = TypeError \<or> e = LinAlgError \<or> e = NotImplementedError \<or>
         e = ValueError \<or> e = InvalidRangeError"
  using assms
  by (auto simp: raises_def np_ex_def polyfit_ex_def r2_score_ex_def
      findStressIdx_nearest_def Let_def split: if_splits)

lemma fdiv_by_zero: "fpow10 (fdiv a (Fin 0)) = PInf \<or> fpow10 (fdiv a (Fin 0)) = Fin 0 \<or>
    fpow10 (fdiv a (Fin 0)) = NaN"
  by (cases a) auto

text \<open>
  Thirteen stages with a void ratio of 0 throughout and a recompression index of 0:
  both fits are the zero polynomial, the fitted slope 0 is equal to \<^verbatim>\<open>-idxCr\<close>,
  the quotient of line 117 is 0/0, and the method returns with \<^verbatim>\<open>sigmaP = nan\<close>.
\<close>

lemma rows13_flat_line: "(s, e) \<in> set rows13_flat \<Longrightarrow> 0 < s \<and> e = 0 + 0 * log 10 s"
  by (auto simp: rows13_flat_def rows13_def)

lemma card_logs_rows13_flat:
  "card ((\<lambda>p. log 10 (fst p)) ` set (py_slice (Some 4) (Some 9) rows13_flat)) = 5"
  "card ((\<lambda>p. log 10 (fst p)) ` set (py_slice (Some (- 3)) None rows13_flat)) = 3"
  by (simp_all add: py_slice_def py_bound_def rows13_flat_def rows13_def log10_pows)

lemma d13_flat_run:
  "\<exists>r. getSigmaP_locals np_ex d13_flat None None = Inr r \<and>
     p2 r = [Fin 0, Fin 0] \<and> eCr r = Fin 0 \<and> sigmaP r = NaN"
proof -
  have iT: "idxTOP np_ex d13_flat None = Inr (Some 4, Some 9)"
    by (simp add: idxTOP_def d13_flat_def rows13_flat_def rows13_def)
  have iN: "idxNCL np_ex d13_flat None = Inr (Some (- 3), None)"
    by (simp add: idxNCL_def)
  have "\<exists>r. getSigmaP_locals np_ex d13_flat None None = Inr r \<and>
      p1 r = [Fin 0, Fin 0, Fin 0, Fin 0] \<and> p2 r = [Fin 0, Fin 0] \<and>
      r2TOP r = Fin 1 \<and> r2NCL r = Fin 1"
  proof (rule np_ex_any_line_run[OF iT iN])
    fix s e
    assume "(s, e) \<in> set (cleaned d13_flat)"
    then have "(s, e) \<in> set rows13_flat" by (simp add: d13_flat_def)
    then show "0 < s \<and> e = 0 + 0 * log 10 s" by (rule rows13_flat_line)
  qed (simp_all add: d13_flat_def card_logs_rows13_flat)
  then obtain r where
    run: "getSigmaP_locals np_ex d13_flat None None = Inr r"
    and p1: "p1 r = [Fin 0, Fin 0, Fin 0, Fin 0]"
    and p2: "p2 r = [Fin 0, Fin 0]"
    by blast
  from locals_InrD[OF run] have
    ev: "eSigmaV r = polyval (flog10 (Fin (sigmaV d13_flat))) (p1 r)" and
    ec: "eCr r = fsub (eSigmaV r)
      (fmul (fneg (Fin (idxCr d13_flat))) (flog10 (Fin (sigmaV d13_flat))))" and
    sp: "sigmaP r = fpow10 (fdiv (fsub (p2 r ! 0) (eCr r))
      (fsub (fneg (Fin (idxCr d13_flat))) (p2 r ! 1)))"
    by blast+
  have ev': "eSigmaV r = Fin 0"
    unfolding ev p1 by (simp add: d13_flat_def log10_pows polyval4)
  have ec': "eCr r = Fin 0"
    unfolding ec ev' by (simp add: d13_flat_def log10_pows fsub_def)
  have "sigmaP r = NaN"
    unfolding sp ec' p2 by (simp add: d13_flat_def fsub_def)
  with run p2 ec' show ?thesis by blast
qed

theorem C2_parallel_lines_counterexample:
  "fst (getSigmaP np_ex \<lparr>data = d13_flat, self_sigmaP = None\<rparr> None None) \<noteq>
     Inl NoIntersectionError \<and>
   map_sum id p2
     (fst (getSigmaP np_ex \<lparr>data = d13_flat, self_sigmaP = None\<rparr> None None)) =
     Inr [Fin 0, Fin 0] \<and>
   - idxCr d13_flat = 0 \<and>
   map_sum id eCr
     (fst (getSigmaP np_ex \<lparr>data = d13_flat, self_sigmaP = None\<rparr> None None)) =
     Inr (Fin 0) \<and>
   map_sum id sigmaP
     (fst (getSigmaP np_ex \<lparr>data = d13_flat, self_sigmaP = None\<rparr> None None)) =
     Inr NaN"
proof -
  from d13_flat_run obtain r where
    "getSigmaP_locals np_ex d13_flat None None = Inr r"
    "p2 r = [Fin 0, Fin 0]" "eCr r = Fin 0" "sigmaP r = NaN"
    by blast
  then show ?thesis
    by (simp add: getSigmaP_def d13_flat_def)
qed

text \<open>
  C2, amended. The method has no check for parallel lines. It raises
  \<^verbatim>\<open>NoIntersectionError\<close> only if a collaborator does; when it returns with a fitted
  slope \<^verbatim>\<open>p2_1 = -idxCr\<close>, the divisor of line 117 is zero, the quotient is
  \<^verbatim>\<open>inf\<close>, \<^verbatim>\<open>-inf\<close> or \<^verbatim>\<open>nan\<close>, and the pressure it returns and stores is
  \<^verbatim>\<open>inf\<close>, 0 or \<^verbatim>\<open>nan\<close>.
\<close>

theorem C2_parallel_lines:
  assumes "getSigmaP L self rT rN = (res, self')"
  shows "(res = Inl NoIntersectionError \<longrightarrow> raises L NoIntersectionError) \<and>
         (\<forall>r a b. res = Inr r \<longrightarrow> p2 r = [a, Fin b] \<longrightarrow> - idxCr (data self) = b \<longrightarrow>
            (sigmaP r = PInf \<or> sigmaP r = Fin 0 \<or> sigmaP r = NaN) \<and>
            self_sigmaP self' = Some (sigmaP r))"
proof -
  have err: "raises L NoIntersectionError" if "res = Inl NoIntersectionError"
  proof -
    from assms that have "getSigmaP_locals L (data self) rT rN = Inl NoIntersectionError"
      by (simp add: getSigmaP_Inl)
    from locals_Inl[OF this] show ?thesis by simp
  qed
  have ret: "(sigmaP r = PInf \<or> sigmaP r = Fin 0 \<or> sigmaP r = NaN) \<and>
      self_sigmaP self' = Some (sigmaP r)"
    if "res = Inr r" and p2: "p2 r = [a, Fin b]" and par: "- idxCr (data self) = b"
    for r a b
  proof -
    from assms that(1) have run: "getSigmaP_locals L (data self) rT rN = Inr r"
      and st: "self' = self\<lparr>self_sigmaP := Some (sigmaP r)\<rparr>"
      by (simp_all add: getSigmaP_Inr)
    from locals_InrD[OF run] have
      sp: "sigmaP r = fpow10 (fdiv (fsub (p2 r ! 0) (eCr r))
        (fsub (fneg (Fin (idxCr (data self)))) (p2 r ! 1)))"
      by blast
    have "fsub (fneg (Fin (idxCr (data self)))) (p2 r ! 1) = Fin 0"
      using par by (simp add: p2 fsub_def)
    with sp have "sigmaP r = fpow10 (fdiv (fsub (p2 r ! 0) (eCr r)) (Fin 0))"
      by simp
    with fdiv_by_zero[of "fsub (p2 r ! 0) (eCr r)"] st show ?thesis
      by simp
  qed
  from err ret show ?thesis by blast
qed

theorem C2_parallel_lines_witness:
  "(\<exists>r. fst (getSigmaP np_ex \<lparr>data = d13_flat, self_sigmaP = None\<rparr> None None) =
        Inr r \<and>
        (sigmaP r = PInf \<or> sigmaP r = Fin 0 \<or> sigmaP r = NaN) \<and>
        self_sigmaP
          (snd (getSigmaP np_ex \<lparr>data = d13_flat, self_sigmaP = None\<rparr> None None)) =
          Some (sigmaP r)) \<and>
   \<not> raises np_ex NoIntersectionError"
proof -
  let ?self = "\<lparr>data = d13_flat, self_sigmaP = None\<rparr>"
  from d13_flat_run obtain r where
    run: "getSigmaP_locals np_ex d13_flat None None = Inr r"
    and p2: "p2 r = [Fin 0, Fin 0]"
    by blast
  have call: "getSigmaP np_ex ?self None None =
      (Inr r, ?self\<lparr>self_sigmaP := Some (sigmaP r)\<rparr>)"
    by (simp add: getSigmaP_def run)
  have par: "- idxCr (data ?self) = 0"
    by (simp add: d13_flat_def)
  from C2_parallel_lines[OF call] p2 par
  have "(sigmaP r = PInf \<or> sigmaP r = Fin 0 \<or> sigmaP r = NaN) \<and>
      self_sigmaP (?self\<lparr>self_sigmaP := Some (sigmaP r)\<rparr>) = Some (sigmaP r)"
    by blast
  moreover have "\<not> raises np_ex NoIntersectionError"
    using raises_np_ex[of NoIntersectionError] by auto
  ultimately show ?thesis by (simp add: call)
qed

subsection \<open>A frame with the unloaded row\<close>

text \<open>
  The frame that keeps the row of stress 0, with the TOP range from 0 to 10000: the
  window is the rows 0 to 4, and \<^verbatim>\<open>polyfit\<close> raises on the logarithm of 0.
\<close>

lemma nearest_rows14:
  "nearest 0 (0 # map fst rows13) = 0" "nearest 10000 (0 # map fst rows13) = 5"
  by (simp_all add: rows13_def)

lemma d14_zero_frames:
  "cleaned d14_zero = (0, 11 / 10) # rows13" "raw d14_zero = (0, 11 / 10) # rows13"
  by (simp_all add: d14_zero_def)

lemma d14_zero_TOP_window:
  "idxTOP np_ex d14_zero (Some (0, 10000)) = Inr (Some 0, Some 5)"
  "py_slice (Some 0) (Some 5) (map fst (cleaned d14_zero)) = [0, 1, 10, 100, 1000]"
  "py_slice (Some 0) (Some 5) (map snd (cleaned d14_zero)) =
     [11 / 10, 1, 9 / 10, 8 / 10, 7 / 10]"
proof -
  show "idxTOP np_ex d14_zero (Some (0, 10000)) = Inr (Some 0, Some 5)"
    by (simp add: idxTOP_def bnd_def np_ex_def findStressIdx_nearest_def d14_zero_frames
        nearest_rows14)
  show "py_slice (Some 0) (Some 5) (map fst (cleaned d14_zero)) = [0, 1, 10, 100, 1000]"
    by (simp add: d14_zero_frames rows13_def py_slice_def py_bound_def)
  show "py_slice (Some 0) (Some 5) (map snd (cleaned d14_zero)) =
     [11 / 10, 1, 9 / 10, 8 / 10, 7 / 10]"
    by (simp add: d14_zero_frames rows13_def py_slice_def py_bound_def)
qed

lemma d14_zero_raises:
  "getSigmaP_locals np_ex d14_zero (Some (0, 10000)) None = Inl LinAlgError"
proof -
  have pf: "polyfit np_ex (map (\<lambda>s. flog10 (Fin s)) [0, 1, 10, 100, 1000])
      (map Fin [11 / 10, 1, 9 / 10, 8 / 10, 7 / 10]) 3 = Inl LinAlgError"
    by (simp add: np_ex_def polyfit_ex_def is_fin_def)
  have iN: "idxNCL np_ex d14_zero None = Inr (Some (- 3), None)"
    by (simp add: idxNCL_def)
  show ?thesis
    unfolding getSigmaP_locals_def d14_zero_TOP_window(1) iN
    by (simp only: bnd_def sum.case prod.case Let_def d14_zero_TOP_window(2,3) pf)
qed

subsection \<open>The object\<close>

text \<open>
  The thirteen-stage test on a fresh object: after the call the attribute
  \<^verbatim>\<open>sigmaP\<close> holds the pressure, so the object is not what it was.
\<close>

theorem C8_state_counterexample:
  "snd (getSigmaP np_ex \<lparr>data = d13, self_sigmaP = None\<rparr> None None) \<noteq>
     \<lparr>data = d13, self_sigmaP = None\<rparr> \<and>
   self_sigmaP (snd (getSigmaP np_ex \<lparr>data = d13, self_sigmaP = None\<rparr> None None)) =
     Some (Fin 10)"
proof -
  from d13_run obtain r where
    run: "getSigmaP_locals np_ex d13 None None = Inr r"
    and p2: "p2 r = [Fin 1, Fin (- 1 / 10)]" and ec: "eCr r = Fin (19 / 20)"
    by blast
  have ne: "- idxCr d13 \<noteq> (- 1 / 10 :: real)" by (simp add: d13_def)
  have "sigmaP r = Fin (10 powr ((1 - 19 / 20) / (- idxCr d13 - (- 1 / 10))))"
    by (rule locals_sigmaP_fin(1)[OF run p2 ec ne])
  then have "sigmaP r = Fin 10" by (simp add: d13_def)
  then show ?thesis by (simp add: getSigmaP_def run)
qed

text \<open>
  C8, amended. The method never changes \<^verbatim>\<open>self.data\<close>, and what it returns
  depends on the object through \<^verbatim>\<open>self.data\<close> only. When it returns, the one
  change to the object is that \<^verbatim>\<open>self.sigmaP\<close> holds the computed pressure; when it
  raises (in the part before the figure is drawn), the object is unchanged.
\<close>

theorem C8_state_effect:
  assumes "getSigmaP L self rT rN = (res, self')"
  shows "data self' = data self \<and>
         (\<forall>e. res = Inl e \<longrightarrow> self' = self) \<and>
         (\<forall>r. res = Inr r \<longrightarrow> self' = self\<lparr>self_sigmaP := Some (sigmaP r)\<rparr>) \<and>
         (\<forall>other. data other = data self \<longrightarrow> fst (getSigmaP L other rT rN) = res)"
  using assms by (auto simp: getSigmaP_def split: sum.splits)

text \<open>
  The thirteen-stage test returns and stores the pressure 10, whatever the attribute
  held before; on the frame with the row of stress 0 and a TOP range starting there,
  the call raises and the object keeps the pressure it held.
\<close>

theorem C8_state_effect_witness:
  "getSigmaP np_ex \<lparr>data = d13, self_sigmaP = Some (Fin 7)\<rparr> None None =
     (fst (getSigmaP np_ex \<lparr>data = d13, self_sigmaP = None\<rparr> None None),
      \<lparr>data = d13, self_sigmaP = Some (Fin 10)\<rparr>) \<and>
   getSigmaP np_ex \<lparr>data = d14_zero, self_sigmaP = Some (Fin 7)\<rparr> (Some (0, 10000)) None =
     (Inl LinAlgError, \<lparr>data = d14_zero, self_sigmaP = Some (Fin 7)\<rparr>)"
proof -
  let ?old = "\<lparr>data = d13, self_sigmaP = Some (Fin 7)\<rparr>"
  let ?new = "\<lparr>data = d13, self_sigmaP = None\<rparr>"
  from d13_run obtain r where
    run: "getSigmaP_locals np_ex d13 None None = Inr r"
    and p2: "p2 r = [Fin 1, Fin (- 1 / 10)]" and ec: "eCr r = Fin (19 / 20)"
    by blast
  have ne: "- idxCr d13 \<noteq> (- 1 / 10 :: real)" by (simp add: d13_def)
  have "sigmaP r = Fin (10 powr ((1 - 19 / 20) / (- idxCr d13 - (- 1 / 10))))"
    by (rule locals_sigmaP_fin(1)[OF run p2 ec ne])
  then have sp: "sigmaP r = Fin 10" by (simp add: d13_def)
  obtain res self' where call: "getSigmaP np_ex ?old None None = (res, self')"
    by (cases "getSigmaP np_ex ?old None None")
  from call have res: "res = Inr r"
    by (simp add: getSigmaP_def run)
  from C8_state_effect[OF call] res
  have "self' = ?old\<lparr>self_sigmaP := Some (sigmaP r)\<rparr>"
    and "fst (getSigmaP np_ex ?new None None) = res"
    by simp_all
  with call sp have first: "getSigmaP np_ex ?old None None =
      (fst (getSigmaP np_ex ?new None None), \<lparr>data = d13, self_sigmaP = Some (Fin 10)\<rparr>)"
    by simp
  let ?z = "\<lparr>data = d14_zero, self_sigmaP = Some (Fin 7)\<rparr>"
  obtain res2 self2 where call2: "getSigmaP np_ex ?z (Some (0, 10000)) None = (res2, self2)"
    by (cases "getSigmaP np_ex ?z (Some (0, 10000)) None")
  from call2 have res2: "res2 = Inl LinAlgError"
    by (simp add: getSigmaP_def d14_zero_raises)
  from C8_state_effect[OF call2] res2 have "self2 = ?z"
    by simp
  with call2 res2 first show ?thesis by simp
qed

subsection \<open>Windows with few points\<close>

text \<open>
  The thirteen-stage test with the NCL range from \<^verbatim>\<open>10^12\<close> to \<^verbatim>\<open>10^12\<close>: the start
  is resolved to the last row and the end stress is the largest stress, so the window
  is the single row \<^verbatim>\<open>(10^12, -2/10)\<close>. numpy fits the line of least norm through
  it (coefficients -1/10 and -1/120, with a RankWarning), scikit-learn gives the score
  nan (with a warning), and the method returns.
\<close>

lemma d13_one_point:
  "idxNCL np_ex d13 (Some (1000000000000, 1000000000000)) = Inr (Some 12, None)"
  "py_slice (Some 12) None (map fst (cleaned d13)) = [1000000000000]"
  "py_slice (Some 12) None (map snd (cleaned d13)) = [- 2 / 10]"
proof -
  have "findStressIdx np_ex d13 1000000000000 True = Inr (Some 12)"
    by (simp add: np_ex_def findStressIdx_nearest_def d13_def nearest_rows13)
      (simp add: rows13_def)
  then show "idxNCL np_ex d13 (Some (1000000000000, 1000000000000)) = Inr (Some 12, None)"
    by (simp add: idxNCL_def bnd_def d13_def series_max_rows13)
  show "py_slice (Some 12) None (map fst (cleaned d13)) = [1000000000000]"
    by (simp add: d13_def rows13_def py_slice_def py_bound_def)
  show "py_slice (Some 12) None (map snd (cleaned d13)) = [- 2 / 10]"
    by (simp add: d13_def rows13_def py_slice_def py_bound_def)
qed

lemma d13_one_point_fits:
  "idxTOP np_ex d13 None = Inr (Some 4, Some 9)"
  "polyfit np_ex
     (map (\<lambda>s. flog10 (Fin s)) (py_slice (Some 4) (Some 9) (map fst (cleaned d13))))
     (map Fin (py_slice (Some 4) (Some 9) (map snd (cleaned d13)))) 3 =
     Inr [Fin 1, Fin (- 1 / 10), Fin 0, Fin 0]"
  "r2_score np_ex (map Fin (py_slice (Some 4) (Some 9) (map snd (cleaned d13))))
     (map (\<lambda>x. polyval x [Fin 1, Fin (- 1 / 10), Fin 0, Fin 0])
        (map (\<lambda>s. flog10 (Fin s)) (py_slice (Some 4) (Some 9) (map fst (cleaned d13))))) =
     Inr (Fin 1)"
  "length (py_slice (Some 4) (Some 9) (map fst (cleaned d13))) = 5"
  "polyfit np_ex
     (map (\<lambda>s. flog10 (Fin s)) (py_slice (Some 12) None (map fst (cleaned d13))))
     (map Fin (py_slice (Some 12) None (map snd (cleaned d13)))) 1 =
     Inr [Fin (- 1 / 10), Fin (- 1 / 120)]"
  "r2_score np_ex (map Fin (py_slice (Some 12) None (map snd (cleaned d13))))
     (map (\<lambda>x. polyval x [Fin (- 1 / 10), Fin (- 1 / 120)])
        (map (\<lambda>s. flog10 (Fin s)) (py_slice (Some 12) None (map fst (cleaned d13))))) =
     Inr NaN"
  "length (py_slice (Some 12) None (map fst (cleaned d13))) = 1"
  "length (cleaned d13) = 13"
proof -
  have iT: "idxTOP np_ex d13 None = Inr (Some 4, Some 9)"
    by (simp add: idxTOP_def d13_def rows13_def)
  from rows13_default[of d13] obtain r where
    run: "getSigmaP_locals np_ex d13 None None = Inr r"
    and p1: "p1 r = [Fin 1, Fin (- 1 / 10), Fin 0, Fin 0]"
    and q1: "r2TOP r = Fin 1"
    by (auto simp: d13_def)
  from locals_InrD[OF run] obtain a b where
    ab: "idxTOP np_ex d13 None = Inr (a, b)"
    and ws: "sigmaTOP r = py_slice a b (map fst (cleaned d13))"
    and we: "eTOP r = py_slice a b (map snd (cleaned d13))"
    and pf: "polyfit np_ex (map (\<lambda>s. flog10 (Fin s)) (sigmaTOP r)) (map Fin (eTOP r)) 3 =
      Inr (p1 r)"
    and sc: "r2_score np_ex (map Fin (eTOP r))
      (map (\<lambda>x. polyval x (p1 r)) (map (\<lambda>s. flog10 (Fin s)) (sigmaTOP r))) = Inr (r2TOP r)"
    by blast
  from ab iT have "a = Some 4" and "b = Some 9" by simp_all
  note w = ws[unfolded this] we[unfolded this]
  show "idxTOP np_ex d13 None = Inr (Some 4, Some 9)"
    by (rule iT)
  show "polyfit np_ex
      (map (\<lambda>s. flog10 (Fin s)) (py_slice (Some 4) (Some 9) (map fst (cleaned d13))))
      (map Fin (py_slice (Some 4) (Some 9) (map snd (cleaned d13)))) 3 =
      Inr [Fin 1, Fin (- 1 / 10), Fin 0, Fin 0]"
    using pf unfolding w p1 .
  show "r2_score np_ex (map Fin (py_slice (Some 4) (Some 9) (map snd (cleaned d13))))
      (map (\<lambda>x. polyval x [Fin 1, Fin (- 1 / 10), Fin 0, Fin 0])
        (map (\<lambda>s. flog10 (Fin s)) (py_slice (Some 4) (Some 9) (map fst (cleaned d13))))) =
      Inr (Fin 1)"
    using sc unfolding w p1 q1 .
  show "length (py_slice (Some 4) (Some 9) (map fst (cleaned d13))) = 5"
    by (simp add: py_slice_def py_bound_def d13_def rows13_def)
  show "polyfit np_ex
      (map (\<lambda>s. flog10 (Fin s)) (py_slice (Some 12) None (map fst (cleaned d13))))
      (map Fin (py_slice (Some 12) None (map snd (cleaned d13)))) 1 =
      Inr [Fin (- 1 / 10), Fin (- 1 / 120)]"
    unfolding d13_one_point(2,3)
    by (simp add: np_ex_def polyfit_ex_def Let_def log10_pows is_fin_def the_fin_def)
  show "r2_score np_ex (map Fin (py_slice (Some 12) None (map snd (cleaned d13))))
      (map (\<lambda>x. polyval x [Fin (- 1 / 10), Fin (- 1 / 120)])
        (map (\<lambda>s. flog10 (Fin s)) (py_slice (Some 12) None (map fst (cleaned d13))))) =
      Inr NaN"
    unfolding d13_one_point(2,3)
    by (simp add: np_ex_def r2_score_ex_def log10_pows is_fin_def polyval2)
  show "length (py_slice (Some 12) None (map fst (cleaned d13))) = 1"
    unfolding d13_one_point(2) by simp
  show "length (cleaned d13) = 13"
    by (simp add: d13_def rows13_def)
qed

lemma d13_one_point_run:
  "\<exists>r. getSigmaP_locals np_ex d13 None (Some (1000000000000, 1000000000000)) = Inr r \<and>
     p2 r = [Fin (- 1 / 10), Fin (- 1 / 120)] \<and> r2NCL r = NaN"
proof -
  have neT: "py_slice (Some 4) (Some 9) (map fst (cleaned d13)) \<noteq> []"
    using d13_one_point_fits(4) by auto
  have neN: "py_slice (Some 12) None (map fst (cleaned d13)) \<noteq> []"
    using d13_one_point_fits(7) by auto
  have len: "2 \<le> length (cleaned d13)"
    by (simp add: d13_one_point_fits(8))
  from locals_returns[OF d13_one_point_fits(1) d13_one_point(1) d13_one_point_fits(2) _
      d13_one_point_fits(3) neT d13_one_point_fits(5) _ d13_one_point_fits(6) neN len]
  show ?thesis by auto
qed

theorem C7_window_size_counterexample:
  "map_sum id sigmaNCL
     (fst (getSigmaP np_ex \<lparr>data = d13, self_sigmaP = None\<rparr> None
        (Some (1000000000000, 1000000000000)))) = Inr [1000000000000] \<and>
   map_sum id p2
     (fst (getSigmaP np_ex \<lparr>data = d13, self_sigmaP = None\<rparr> None
        (Some (1000000000000, 1000000000000)))) = Inr [Fin (- 1 / 10), Fin (- 1 / 120)] \<and>
   fst (getSigmaP np_ex \<lparr>data = d13, self_sigmaP = None\<rparr> None
        (Some (1000000000000, 1000000000000))) \<noteq> Inl InvalidRangeError"
proof -
  from d13_one_point_run obtain r where
    run: "getSigmaP_locals np_ex d13 None (Some (1000000000000, 1000000000000)) = Inr r"
    and p2: "p2 r = [Fin (- 1 / 10), Fin (- 1 / 120)]"
    by blast
  from locals_InrD[OF run] obtain iN jN where
    "idxNCL np_ex d13 (Some (1000000000000, 1000000000000)) = Inr (iN, jN)"
    "sigmaNCL r = py_slice iN jN (map fst (cleaned d13))"
    by blast
  then have "sigmaNCL r = [1000000000000]"
    by (auto simp: d13_one_point)
  with run p2 show ?thesis by (simp add: getSigmaP_def)
qed

text \<open>
  C7, amended. The method makes no check on the number of points of a window and
  raises \<^verbatim>\<open>InvalidRangeError\<close> only if a collaborator does. It returns exactly when
  \<^verbatim>\<open>findStressIdx\<close> resolves the supplied bounds, \<^verbatim>\<open>polyfit\<close> returns four
  coefficients for the TOP window and two for the NCL window, \<^verbatim>\<open>r2_score\<close>
  returns for both, both windows have at least one point and the cleaned frame has at
  least two rows. A window with fewer points than the degree asks for is fitted as
  \<^verbatim>\<open>polyfit\<close> fits it.
\<close>

theorem C7_no_size_check:
  "(fst (getSigmaP L self rT rN) = Inl InvalidRangeError \<longrightarrow> raises L InvalidRangeError) \<and>
   ((\<exists>r. fst (getSigmaP L self rT rN) = Inr r) \<longleftrightarrow>
    (\<exists>iT jT iN jN c1 q1 c2 q2.
       idxTOP L (data self) rT = Inr (iT, jT) \<and> idxNCL L (data self) rN = Inr (iN, jN) \<and>
       polyfit L
         (map (\<lambda>s. flog10 (Fin s)) (py_slice iT jT (map fst (cleaned (data self)))))
         (map Fin (py_slice iT jT (map snd (cleaned (data self))))) 3 = Inr c1 \<and>
       length c1 = 4 \<and>
       r2_score L (map Fin (py_slice iT jT (map snd (cleaned (data self)))))
         (map (\<lambda>x. polyval x c1)
            (map (\<lambda>s. flog10 (Fin s)) (py_slice iT jT (map fst (cleaned (data self)))))) =
         Inr q1 \<and>
       1 \<le> length (py_slice iT jT (map fst (cleaned (data self)))) \<and>
       polyfit L
         (map (\<lambda>s. flog10 (Fin s)) (py_slice iN jN (map fst (cleaned (data self)))))
         (map Fin (py_slice iN jN (map snd (cleaned (data self))))) 1 = Inr c2 \<and>
       length c2 = 2 \<and>
       r2_score L (map Fin (py_slice iN jN (map snd (cleaned (data self)))))
         (map (\<lambda>x. polyval x c2)
            (map (\<lambda>s. flog10 (Fin s)) (py_slice iN jN (map fst (cleaned (data self)))))) =
         Inr q2 \<and>
       1 \<le> length (py_slice iN jN (map fst (cleaned (data self)))) \<and>
       2 \<le> length (cleaned (data self))))"
proof (intro conjI impI iffI)
  assume "fst (getSigmaP L self rT rN) = Inl InvalidRangeError"
  then have "getSigmaP_locals L (data self) rT rN = Inl InvalidRangeError"
    by (simp add: getSigmaP_def split: sum.splits)
  from locals_Inl[OF this] show "raises L InvalidRangeError" by simp
next
  assume "\<exists>r. fst (getSigmaP L self rT rN) = Inr r"
  then obtain r where "getSigmaP_locals L (data self) rT rN = Inr r"
    by (auto simp: getSigmaP_def split: sum.splits)
  from locals_InrD[OF this] show "\<exists>iT jT iN jN c1 q1 c2 q2.
       idxTOP L (data self) rT = Inr (iT, jT) \<and> idxNCL L (data self) rN = Inr (iN, jN) \<and>
       polyfit L
         (map (\<lambda>s. flog10 (Fin s)) (py_slice iT jT (map fst (cleaned (data self)))))
         (map Fin (py_slice iT jT (map snd (cleaned (data self))))) 3 = Inr c1 \<and>
       length c1 = 4 \<and>
       r2_score L (map Fin (py_slice iT jT (map snd (cleaned (data self)))))
         (map (\<lambda>x. polyval x c1)
            (map (\<lambda>s. flog10 (Fin s)) (py_slice iT jT (map fst (cleaned (data self)))))) =
         Inr q1 \<and>
       1 \<le> length (py_slice iT jT (map fst (cleaned (data self)))) \<and>
       polyfit L
         (map (\<lambda>s. flog10 (Fin s)) (py_slice iN jN (map fst (cleaned (data self)))))
         (map Fin (py_slice iN jN (map snd (cleaned (data self))))) 1 = Inr c2 \<and>
       length c2 = 2 \<and>
       r2_score L (map Fin (py_slice iN jN (map snd (cleaned (data self)))))
         (map (\<lambda>x. polyval x c2)
            (map (\<lambda>s. flog10 (Fin s)) (py_slice iN jN (map fst (cleaned (data self)))))) =
         Inr q2 \<and>
       1 \<le> length (py_slice iN jN (map fst (cleaned (data self)))) \<and>
       2 \<le> length (cleaned (data self))"
    apply (elim exE conjE)
    subgoal for iT jT iN jN
      apply (rule exI[of _ iT], rule exI[of _ jT], rule exI[of _ iN], rule exI[of _ jN])
      apply (rule exI[of _ "p1 r"], rule exI[of _ "r2TOP r"])
      apply (rule exI[of _ "p2 r"], rule exI[of _ "r2NCL r"])
      apply (simp add: Suc_le_eq)
      done
    done
next
  assume "\<exists>iT jT iN jN c1 q1 c2 q2.
       idxTOP L (data self) rT = Inr (iT, jT) \<and> idxNCL L (data self) rN = Inr (iN, jN) \<and>
       polyfit L
         (map (\<lambda>s. flog10 (Fin s)) (py_slice iT jT (map fst (cleaned (data self)))))
         (map Fin (py_slice iT jT (map snd (cleaned (data self))))) 3 = Inr c1 \<and>
       length c1 = 4 \<and>
       r2_score L (map Fin (py_slice iT jT (map snd (cleaned (data self)))))
         (map (\<lambda>x. polyval x c1)
            (map (\<lambda>s. flog10 (Fin s)) (py_slice iT jT (map fst (cleaned (data self)))))) =
         Inr q1 \<and>
       1 \<le> length (py_slice iT jT (map fst (cleaned (data self)))) \<and>
       polyfit L
         (map (\<lambda>s. flog10 (Fin s)) (py_slice iN jN (map fst (cleaned (data self)))))
         (map Fin (py_slice iN jN (map snd (cleaned (data self))))) 1 = Inr c2 \<and>
       length c2 = 2 \<and>
       r2_score L (map Fin (py_slice iN jN (map snd (cleaned (data self)))))
         (map (\<lambda>x. polyval x c2)
            (map (\<lambda>s. flog10 (Fin s)) (py_slice iN jN (map fst (cleaned (data self)))))) =
         Inr q2 \<and>
       1 \<le> length (py_slice iN jN (map fst (cleaned (data self)))) \<and>
       2 \<le> length (cleaned (data self))"
  then obtain iT jT iN jN c1 q1 c2 q2 where
    a: "idxTOP L (data self) rT = Inr (iT, jT)" "idxNCL L (data self) rN = Inr (iN, jN)"
    and b: "polyfit L
         (map (\<lambda>s. flog10 (Fin s)) (py_slice iT jT (map fst (cleaned (data self)))))
         (map Fin (py_slice iT jT (map snd (cleaned (data self))))) 3 = Inr c1"
       "length c1 = 4"
       "r2_score L (map Fin (py_slice iT jT (map snd (cleaned (data self)))))
         (map (\<lambda>x. polyval x c1)
            (map (\<lambda>s. flog10 (Fin s)) (py_slice iT jT (map fst (cleaned (data self)))))) =
         Inr q1"
       "1 \<le> length (py_slice iT jT (map fst (cleaned (data self))))"
    and c: "polyfit L
         (map (\<lambda>s. flog10 (Fin s)) (py_slice iN jN (map fst (cleaned (data self)))))
         (map Fin (py_slice iN jN (map snd (cleaned (data self))))) 1 = Inr c2"
       "length c2 = 2"
       "r2_score L (map Fin (py_slice iN jN (map snd (cleaned (data self)))))
         (map (\<lambda>x. polyval x c2)
            (map (\<lambda>s. flog10 (Fin s)) (py_slice iN jN (map fst (cleaned (data self)))))) =
         Inr q2"
       "1 \<le> length (py_slice iN jN (map fst (cleaned (data self))))"
       "2 \<le> length (cleaned (data self))"
    by blast
  have neT: "py_slice iT jT (map fst (cleaned (data self))) \<noteq> []"
    using b(4) by auto
  have neN: "py_slice iN jN (map fst (cleaned (data self))) \<noteq> []"
    using c(4) by auto
  from locals_returns[OF a b(1,2,3) neT c(1,2,3) neN c(5)]
  obtain r where "getSigmaP_locals L (data self) rT rN = Inr r" by blast
  then show "\<exists>r. fst (getSigmaP L self rT rN) = Inr r"
    by (simp add: getSigmaP_def)
qed

text \<open>
  The single-row NCL window of the thirteen-stage test: every condition holds with a
  window of one point, so the method returns. On an empty frame with a supplied TOP
  range the call does end in \<^verbatim>\<open>InvalidRangeError\<close>: the one that
  \<^verbatim>\<open>findStressIdx\<close> raises.
\<close>

theorem C7_no_size_check_witness:
  "(\<exists>r. fst (getSigmaP np_ex \<lparr>data = d13, self_sigmaP = None\<rparr> None
           (Some (1000000000000, 1000000000000))) = Inr r) \<and>
   length (py_slice (Some 12) None (map fst (cleaned d13))) = 1 \<and>
   idxNCL np_ex d13 (Some (1000000000000, 1000000000000)) = Inr (Some 12, None) \<and>
   fst (getSigmaP np_ex
          \<lparr>data = \<lparr>raw = [], cleaned = [], sigmaV = 10, idxCr = 1 / 20\<rparr>,
             self_sigmaP = None\<rparr> (Some (1, 2)) None) = Inl InvalidRangeError \<and>
   raises np_ex InvalidRangeError"
proof -
  let ?e = "\<lparr>data = \<lparr>raw = [], cleaned = [], sigmaV = 10, idxCr = 1 / 20\<rparr>,
             self_sigmaP = None\<rparr>"
  have "idxTOP np_ex (data ?e) (Some (1, 2)) = Inl InvalidRangeError"
    by (simp add: idxTOP_def bnd_def np_ex_def findStressIdx_nearest_def)
  then have "getSigmaP_locals np_ex (data ?e) (Some (1, 2)) None = Inl InvalidRangeError"
    unfolding getSigmaP_locals_def by (simp only: bnd_def sum.case)
  then have empty: "fst (getSigmaP np_ex ?e (Some (1, 2)) None) = Inl InvalidRangeError"
    by (simp add: getSigmaP_def)
  with C7_no_size_check[of np_ex ?e "Some (1, 2)" None]
  have coll: "raises np_ex InvalidRangeError"
    by blast
  let ?self = "\<lparr>data = d13, self_sigmaP = None\<rparr>"
  let ?rN = "Some (1000000000000 :: real, 1000000000000 :: real)"
  have "\<exists>iT jT iN jN c1 q1 c2 q2.
       idxTOP np_ex (data ?self) None = Inr (iT, jT) \<and>
       idxNCL np_ex (data ?self) ?rN = Inr (iN, jN) \<and>
       polyfit np_ex
         (map (\<lambda>s. flog10 (Fin s)) (py_slice iT jT (map fst (cleaned (data ?self)))))
         (map Fin (py_slice iT jT (map snd (cleaned (data ?self))))) 3 = Inr c1 \<and>
       length c1 = 4 \<and>
       r2_score np_ex (map Fin (py_slice iT jT (map snd (cleaned (data ?self)))))
         (map (\<lambda>x. polyval x c1)
            (map (\<lambda>s. flog10 (Fin s)) (py_slice iT jT (map fst (cleaned (data ?self)))))) =
         Inr q1 \<and>
       1 \<le> length (py_slice iT jT (map fst (cleaned (data ?self)))) \<and>
       polyfit np_ex
         (map (\<lambda>s. flog10 (Fin s)) (py_slice iN jN (map fst (cleaned (data ?self)))))
         (map Fin (py_slice iN jN (map snd (cleaned (data ?self))))) 1 = Inr c2 \<and>
       length c2 = 2 \<and>
       r2_score np_ex (map Fin (py_slice iN jN (map snd (cleaned (data ?self)))))
         (map (\<lambda>x. polyval x c2)
            (map (\<lambda>s. flog10 (Fin s)) (py_slice iN jN (map fst (cleaned (data ?self)))))) =
         Inr q2 \<and>
       1 \<le> length (py_slice iN jN (map fst (cleaned (data ?self)))) \<and>
       2 \<le> length (cleaned (data ?self))"
    apply (rule exI[of _ "Some 4"], rule exI[of _ "Some 9"])
    apply (rule exI[of _ "Some 12"], rule exI[of _ None])
    apply (rule exI[of _ "[Fin 1, Fin (- 1 / 10), Fin 0, Fin 0]"], rule exI[of _ "Fin 1"])
    apply (rule exI[of _ "[Fin (- 1 / 10), Fin (- 1 / 120)]"], rule exI[of _ NaN])
    apply (simp only: Boone.select_convs)
    apply (intro conjI)
              apply (rule d13_one_point_fits(1))
             apply (rule d13_one_point(1))
            apply (rule d13_one_point_fits(2))
           apply simp
          apply (rule d13_one_point_fits(3))
         apply (simp add: d13_one_point_fits(4))
        apply (rule d13_one_point_fits(5))
       apply simp
      apply (rule d13_one_point_fits(6))
     apply (simp add: d13_one_point_fits(7))
    apply (simp add: d13_one_point_fits(8))
    done
  with C7_no_size_check[of np_ex ?self None ?rN]
  have "\<exists>r. fst (getSigmaP np_ex ?self None ?rN) = Inr r"
    by blast
  with empty coll show ?thesis
    by (simp add: d13_one_point_fits(7) d13_one_point(1))
qed

subsection \<open>Stresses that have no logarithm\<close>

text \<open>
  The frame with the row of stress 0 and the TOP range from 0 to 10000: the window is
  the rows 0 to 4, its first stress is 0, \<^verbatim>\<open>np.log10\<close> gives \<^verbatim>\<open>-inf\<close> there and
  raises nothing, and what the call raises is not \<^verbatim>\<open>DomainError\<close> (it is the
  LinAlgError of \<^verbatim>\<open>polyfit\<close>'s least-squares solver).
\<close>

theorem C6_domain_counterexample:
  "idxTOP np_ex d14_zero (Some (0, 10000)) = Inr (Some 0, Some 5) \<and>
   py_slice (Some 0) (Some 5) (map fst (cleaned d14_zero)) = [0, 1, 10, 100, 1000] \<and>
   flog10 (Fin 0) = NInf \<and>
   fst (getSigmaP np_ex \<lparr>data = d14_zero, self_sigmaP = None\<rparr> (Some (0, 10000)) None) \<noteq>
     Inl DomainError"
  by (simp add: d14_zero_TOP_window getSigmaP_def d14_zero_raises)

text \<open>
  C6, amended. The method makes no check on the sign of a stress and raises
  \<^verbatim>\<open>DomainError\<close> only if a collaborator does. \<^verbatim>\<open>np.log10\<close> of a selected stress
  that is 0 is \<^verbatim>\<open>-inf\<close>, of a negative one \<^verbatim>\<open>nan\<close>; these values are passed to
  \<^verbatim>\<open>polyfit\<close>. An exception that \<^verbatim>\<open>polyfit\<close> raises on the TOP window is the
  exception of the method, and when the method returns, its coefficients are what
  \<^verbatim>\<open>polyfit\<close> returned for the logarithms of the windows.
\<close>

theorem C6_no_domain_check:
  assumes "getSigmaP L self rT rN = (res, self')"
  shows "(res = Inl DomainError \<longrightarrow> raises L DomainError) \<and>
         (\<forall>s. s \<le> 0 \<longrightarrow> flog10 (Fin s) = (if s = 0 then NInf else NaN)) \<and>
         (\<forall>iT jT iN jN e.
            idxTOP L (data self) rT = Inr (iT, jT) \<longrightarrow>
            idxNCL L (data self) rN = Inr (iN, jN) \<longrightarrow>
            polyfit L
              (map (\<lambda>s. flog10 (Fin s)) (py_slice iT jT (map fst (cleaned (data self)))))
              (map Fin (py_slice iT jT (map snd (cleaned (data self))))) 3 = Inl e \<longrightarrow>
            res = Inl e) \<and>
         (\<forall>r. res = Inr r \<longrightarrow>
            polyfit L (map (\<lambda>s. flog10 (Fin s)) (sigmaTOP r)) (map Fin (eTOP r)) 3 =
              Inr (p1 r) \<and>
            polyfit L (map (\<lambda>s. flog10 (Fin s)) (sigmaNCL r)) (map Fin (eNCL r)) 1 =
              Inr (p2 r))"
proof -
  have run: "getSigmaP_locals L (data self) rT rN = res"
    using assms by (auto simp: getSigmaP_def split: sum.splits)
  have err: "raises L DomainError" if "res = Inl DomainError"
    using locals_Inl[of L "data self" rT rN DomainError] that run by simp
  have lg: "flog10 (Fin s) = (if s = 0 then NInf else NaN)" if "s \<le> 0" for s :: real
    using that by simp
  have passed: "res = Inl e"
    if "idxTOP L (data self) rT = Inr (iT, jT)"
      and "idxNCL L (data self) rN = Inr (iN, jN)"
      and "polyfit L
        (map (\<lambda>s. flog10 (Fin s)) (py_slice iT jT (map fst (cleaned (data self)))))
        (map Fin (py_slice iT jT (map snd (cleaned (data self))))) 3 = Inl e"
    for iT jT iN jN e
    unfolding run[symmetric] getSigmaP_locals_def that(1,2)
    by (simp only: bnd_def sum.case prod.case Let_def that(3))
  have ret: "polyfit L (map (\<lambda>s. flog10 (Fin s)) (sigmaTOP r)) (map Fin (eTOP r)) 3 =
        Inr (p1 r) \<and>
      polyfit L (map (\<lambda>s. flog10 (Fin s)) (sigmaNCL r)) (map Fin (eNCL r)) 1 = Inr (p2 r)"
    if "res = Inr r" for r
    using locals_InrD[of L "data self" rT rN r] that run by blast
  from err lg passed ret show ?thesis by blast
qed

theorem C6_no_domain_check_witness:
  "fst (getSigmaP np_ex \<lparr>data = d14_zero, self_sigmaP = None\<rparr> (Some (0, 10000)) None) =
     Inl LinAlgError \<and>
   flog10 (Fin 0) = NInf \<and> flog10 (Fin (- 1)) = NaN \<and>
   \<not> raises np_ex DomainError"
proof -
  let ?self = "\<lparr>data = d14_zero, self_sigmaP = None\<rparr>"
  obtain res self' where call: "getSigmaP np_ex ?self (Some (0, 10000)) None = (res, self')"
    by (cases "getSigmaP np_ex ?self (Some (0, 10000)) None")
  have iT: "idxTOP np_ex (data ?self) (Some (0, 10000)) = Inr (Some 0, Some 5)"
    by (simp add: d14_zero_TOP_window)
  have iN: "idxNCL np_ex (data ?self) None = Inr (Some (- 3), None)"
    by (simp add: idxNCL_def)
  have pf: "polyfit np_ex
      (map (\<lambda>s. flog10 (Fin s)) (py_slice (Some 0) (Some 5) (map fst (cleaned (data ?self)))))
      (map Fin (py_slice (Some 0) (Some 5) (map snd (cleaned (data ?self))))) 3 =
      Inl LinAlgError"
    by (simp add: d14_zero_TOP_window np_ex_def polyfit_ex_def is_fin_def)
  from C6_no_domain_check[OF call] iT iN pf have "res = Inl LinAlgError"
    by blast
  moreover from C6_no_domain_check[OF call]
  have "flog10 (Fin 0) = NInf" and "flog10 (Fin (- 1)) = NaN"
    by simp_all
  moreover have "\<not> raises np_ex DomainError"
    using raises_np_ex[of DomainError] by auto
  ultimately show ?thesis by (simp add: call)
qed

subsection \<open>Supplied ranges and the default windows\<close>

lemma nearest_nth:
  assumes "distinct xs" and "k < length xs"
  shows "nearest (xs ! k) xs = k"
  using assms
proof (induction xs arbitrary: k)
  case Nil
  then show ?case by simp
next
  case (Cons x xs)
  show ?case
  proof (cases xs)
    case Nil
    with Cons.prems show ?thesis by simp
  next
    case (Cons y ys)
    show ?thesis
    proof (cases k)
      case 0
      then show ?thesis by (simp add: Cons)
    next
      case (Suc j)
      with Cons.prems have j: "j < length xs" and d: "distinct xs" and nx: "x \<notin> set xs"
        by simp_all
      from Cons.IH[OF d j] have ih: "nearest (xs ! j) xs = j" .
      from nx j have "x \<noteq> xs ! j" by (metis nth_mem)
      then have far: "\<not> \<bar>x - xs ! j\<bar> \<le> \<bar>xs ! j - xs ! j\<bar>" by simp
      have step: "nearest s (x # xs) =
          (if \<bar>x - s\<bar> \<le> \<bar>xs ! nearest s xs - s\<bar> then 0 else Suc (nearest s xs))" for s
        unfolding Cons by (simp add: Let_def)
      have "nearest (xs ! j) (x # xs) = Suc j"
        unfolding step ih using far by simp
      then show ?thesis
        unfolding Suc by simp
    qed
  qed
qed

lemma linspace_last:
  assumes "2 \<le> num"
  shows "last (linspace start stop num) = stop"
proof -
  from assms obtain m where m: "num = Suc m" and "1 \<le> m"
    by (cases num) auto
  then show ?thesis
    by (simp add: linspace_def last_map)
qed

lemma py_slice_tail3:
  assumes "length ys = m"
  shows "py_slice (Some (int (m - 3))) None ys = py_slice (Some (- 3)) None ys"
proof -
  have "nat (int m - 3) = m - 3" by simp
  then show ?thesis
    using assms by (simp add: py_slice_def py_bound_def)
qed

text \<open>
  The thirteen-stage test with the ranges read off the default windows, from the
  first to the last stress of each: the TOP range from \<^verbatim>\<open>10^4\<close> to \<^verbatim>\<open>10^8\<close> is
  resolved to the slice from 4 to 8, which leaves the row of \<^verbatim>\<open>10^8\<close> out, so the TOP
  window and the sampled curve of the cubic differ from those of the default call.
\<close>

theorem C9_default_equivalence_counterexample:
  "getSigmaP np_ex \<lparr>data = d13, self_sigmaP = None\<rparr>
     (Some (10000, 100000000)) (Some (10000000000, 1000000000000)) \<noteq>
   getSigmaP np_ex \<lparr>data = d13, self_sigmaP = None\<rparr> None None \<and>
   map_sum id sigmaTOP
     (fst (getSigmaP np_ex \<lparr>data = d13, self_sigmaP = None\<rparr>
        (Some (10000, 100000000)) (Some (10000000000, 1000000000000)))) =
     Inr [10000, 100000, 1000000, 10000000] \<and>
   map_sum id sigmaTOP
     (fst (getSigmaP np_ex \<lparr>data = d13, self_sigmaP = None\<rparr> None None)) =
     Inr [10000, 100000, 1000000, 10000000, 100000000] \<and>
   map_sum id (\<lambda>r. last (xFitTOP r))
     (fst (getSigmaP np_ex \<lparr>data = d13, self_sigmaP = None\<rparr>
        (Some (10000, 100000000)) (Some (10000000000, 1000000000000)))) =
     Inr 10000000 \<and>
   map_sum id (\<lambda>r. last (xFitTOP r))
     (fst (getSigmaP np_ex \<lparr>data = d13, self_sigmaP = None\<rparr> None None)) =
     Inr 100000000"
proof -
  let ?rT = "Some (10000 :: real, 100000000 :: real)"
  let ?rN = "Some (10000000000 :: real, 1000000000000 :: real)"
  have f: "findStressIdx np_ex d13 10000 True = Inr (Some 4)"
    "findStressIdx np_ex d13 100000000 True = Inr (Some 8)"
    "findStressIdx np_ex d13 10000000000 True = Inr (Some 10)"
    by (simp_all add: np_ex_def findStressIdx_nearest_def d13_def nearest_rows13)
      (simp_all add: rows13_def)
  have iT: "idxTOP np_ex d13 ?rT = Inr (Some 4, Some 8)"
    using f by (simp add: idxTOP_def bnd_def)
  have iN: "idxNCL np_ex d13 ?rN = Inr (Some 10, None)"
    using f by (simp add: idxNCL_def bnd_def d13_def series_max_rows13)
  have "\<exists>r. getSigmaP_locals np_ex d13 ?rT ?rN = Inr r \<and>
      p1 r = [Fin 1, Fin (- 1 / 10), Fin 0, Fin 0] \<and> p2 r = [Fin 1, Fin (- 1 / 10)] \<and>
      r2TOP r = Fin 1 \<and> r2NCL r = Fin 1"
    by (rule np_ex_line_run[OF iT iN])
      (simp_all add: d13_def rows13_line card_logs_rows13)
  then obtain r' where run': "getSigmaP_locals np_ex d13 ?rT ?rN = Inr r'"
    by blast
  from locals_InrD[OF run'] obtain a b where
    "idxTOP np_ex d13 ?rT = Inr (a, b)"
    and "sigmaTOP r' = py_slice a b (map fst (cleaned d13))"
    and x': "xFitTOP r' = linspace (sigmaTOP r' ! 0) (sigmaTOP r' ! (length (sigmaTOP r') - 1)) 500"
    by blast
  with iT have w': "sigmaTOP r' = [10000, 100000, 1000000, 10000000]"
    by (auto simp: d13_def rows13_def py_slice_def py_bound_def)
  have l': "last (xFitTOP r') = 10000000"
    unfolding x' w' by (simp add: linspace_last)
  from rows13_default[of d13] obtain r where
    run: "getSigmaP_locals np_ex d13 None None = Inr r"
    by (auto simp: d13_def)
  from locals_InrD[OF run] obtain a b where
    "idxTOP np_ex d13 None = Inr (a, b)"
    and "sigmaTOP r = py_slice a b (map fst (cleaned d13))"
    and x: "xFitTOP r = linspace (sigmaTOP r ! 0) (sigmaTOP r ! (length (sigmaTOP r) - 1)) 500"
    by blast
  with d13_one_point_fits(1)
  have w: "sigmaTOP r = [10000, 100000, 1000000, 10000000, 100000000]"
    by (auto simp: d13_def rows13_def py_slice_def py_bound_def)
  have l: "last (xFitTOP r) = 100000000"
    unfolding x w by (simp add: linspace_last)
  from w w' have "r' \<noteq> r" by auto
  with run run' w w' l l' show ?thesis
    by (simp add: getSigmaP_def)
qed

text \<open>
  C9, amended, for a \<^verbatim>\<open>findStressIdx\<close> that resolves a stress to the index of the
  nearest cleaned stress: on a cleaned frame of at least three rows with distinct
  stresses, the call whose TOP range runs from the stress at the index \<^verbatim>\<open>floor(n/3)\<close>
  to the stress at the index \<^verbatim>\<open>ceil(2n/3)\<close> (the first row after the default window:
  the end of a slice is excluded) and whose NCL range runs from the stress at the index
  \<^verbatim>\<open>n - 3\<close> to any stress not below the largest one returns the same figure and leaves
  the same object as the call with both ranges omitted.
\<close>

theorem C9_default_equivalence:
  assumes "findStressIdx L = findStressIdx_nearest"
    and "distinct (map fst (cleaned (data self)))"
    and "n = length (cleaned (data self))"
    and "3 \<le> n"
    and "Max (set (map fst (cleaned (data self)))) \<le> hi"
  shows "getSigmaP L self
           (Some (fst (cleaned (data self) ! nat \<lfloor>real n / 3\<rfloor>),
                  fst (cleaned (data self) ! nat \<lceil>2 * real n / 3\<rceil>)))
           (Some (fst (cleaned (data self) ! (n - 3)), hi)) =
         getSigmaP L self None None"
proof -
  let ?d = "data self"
  let ?xs = "map fst (cleaned ?d)"
  let ?k1 = "n div 3" and ?k2 = "(2 * n + 2) div 3"
  have len: "length ?xs = n" by (simp add: assms(3))
  have ne: "?xs \<noteq> []" using assms(3,4) by auto
  have k: "nat \<lfloor>real n / 3\<rfloor> = ?k1" "nat \<lceil>2 * real n / 3\<rceil> = ?k2"
    by (simp_all add: floor_third ceiling_two_thirds)
  have k1: "?k1 < n" and k2: "?k2 < n" and k3: "n - 3 < n"
    using assms(4) by presburger+
  have find: "findStressIdx L ?d (fst (cleaned ?d ! j)) True = Inr (Some (int j))"
    if "j < n" for j
  proof -
    from that have "fst (cleaned ?d ! j) = ?xs ! j"
      by (simp add: assms(3))
    moreover from that have "nearest (?xs ! j) ?xs = j"
      by (intro nearest_nth[OF assms(2)]) (simp add: assms(3))
    ultimately show ?thesis
      using ne by (simp add: assms(1) findStressIdx_nearest_def)
  qed
  have iT: "idxTOP L ?d (Some (fst (cleaned ?d ! ?k1), fst (cleaned ?d ! ?k2))) =
      idxTOP L ?d None"
    unfolding idxTOP_def
    by (simp only: option.case prod.case find[OF k1] find[OF k2] bnd_def sum.case
        assms(3)[symmetric] floor_third ceiling_two_thirds)
  have "\<not> flt (Fin hi) (series_max ?xs)"
    using ne assms(5) by (simp only: series_max_def if_False flt.simps not_less)
  then have iN: "idxNCL L ?d (Some (fst (cleaned ?d ! (n - 3)), hi)) =
      Inr (Some (int (n - 3)), None)"
    by (simp add: idxNCL_def bnd_def find[OF k3])
  have iN0: "idxNCL L ?d None = Inr (Some (- 3), None)"
    by (simp add: idxNCL_def)
  have s1: "py_slice (Some (int (n - 3))) None (map fst (cleaned ?d)) =
      py_slice (Some (- 3)) None (map fst (cleaned ?d))"
    by (rule py_slice_tail3) (simp add: assms(3))
  have s2: "py_slice (Some (int (n - 3))) None (map snd (cleaned ?d)) =
      py_slice (Some (- 3)) None (map snd (cleaned ?d))"
    by (rule py_slice_tail3) (simp add: assms(3))
  have "getSigmaP_locals L ?d
      (Some (fst (cleaned ?d ! ?k1), fst (cleaned ?d ! ?k2)))
      (Some (fst (cleaned ?d ! (n - 3)), hi)) = getSigmaP_locals L ?d None None"
    unfolding getSigmaP_locals_def iT iN iN0
    by (cases "idxTOP L ?d None") (simp_all only: bnd_def sum.case prod.case s1 s2)
  then show ?thesis
    unfolding getSigmaP_def k by simp
qed

text \<open>
  The thirteen-stage test: the TOP range from \<^verbatim>\<open>10^4\<close> to \<^verbatim>\<open>10^9\<close> (rows 4 and 9)
  and the NCL range from \<^verbatim>\<open>10^10\<close> to \<^verbatim>\<open>10^12\<close> give the default call.
\<close>

theorem C9_default_equivalence_witness:
  "getSigmaP np_ex \<lparr>data = d13, self_sigmaP = None\<rparr>
     (Some (10000, 1000000000)) (Some (10000000000, 1000000000000)) =
   getSigmaP np_ex \<lparr>data = d13, self_sigmaP = None\<rparr> None None"
proof -
  let ?self = "\<lparr>data = d13, self_sigmaP = None\<rparr>"
  have a1: "findStressIdx np_ex = findStressIdx_nearest"
    by (simp add: np_ex_def)
  have a2: "distinct (map fst (cleaned (data ?self)))"
    by (simp add: d13_def rows13_def)
  have a3: "13 = length (cleaned (data ?self))"
    by (simp add: d13_def rows13_def)
  have a4: "3 \<le> (13::nat)" by simp
  have a5: "Max (set (map fst (cleaned (data ?self)))) \<le> 1000000000000"
    by (simp add: d13_def rows13_def)
  have "fst (cleaned (data ?self) ! nat \<lfloor>real 13 / 3\<rfloor>) = 10000"
    and "fst (cleaned (data ?self) ! nat \<lceil>2 * real 13 / 3\<rceil>) = 1000000000"
    and "fst (cleaned (data ?self) ! (13 - 3)) = 10000000000"
    by (simp_all add: d13_def rows13_def)
  with C9_default_equivalence[OF a1 a2 a3 a4 a5] show ?thesis
    by simp
qed

end
